theory Spec2Isabelle
  imports Main
begin

section \<open>Library functions of Go used by the program\<close>

text \<open>
  The program is a single Go file, \<^verbatim>\<open>main.go\<close>. It calls a handful of functions of the Go
  standard library whose results decide what the program does: \<^verbatim>\<open>strings.Split\<close>,
  \<^verbatim>\<open>strconv.Atoi\<close>, \<^verbatim>\<open>fmt.Sprintf\<close> with the verb \<^verbatim>\<open>%02d\<close>, \<^verbatim>\<open>time.Parse\<close> and the methods
  \<^verbatim>\<open>Before\<close>, \<^verbatim>\<open>After\<close> and \<^verbatim>\<open>Weekday\<close> of \<^verbatim>\<open>time.Time\<close>. They are modelled here as the
  library computes them on a 64-bit platform. A Go string is a sequence of bytes, as a HOL
  \<^typ>\<open>string\<close> is.
\<close>

subsection \<open>Bytes and decimal digits\<close>

definition isDigit :: "char \<Rightarrow> bool" where
  "isDigit c = (48 \<le> (of_char c :: nat) \<and> (of_char c :: nat) \<le> 57)"

definition digit_of :: "char \<Rightarrow> nat" where
  "digit_of c = of_char c - 48"

definition digit_char :: "nat \<Rightarrow> char" where
  "digit_char d = char_of (48 + d)"

subsection \<open>\<^verbatim>\<open>strings.Split(t, ":")\<close>\<close>

text \<open>
  Splitting at every colon: a string with \<open>n\<close> colons gives \<open>n + 1\<close> parts, some of them
  possibly empty; the empty string gives the one part \<open>''''\<close>.
\<close>

fun Split_colon :: "string \<Rightarrow> string list" where
  "Split_colon [] = [[]]"
| "Split_colon (c # cs) =
     (if c = CHR '':'' then [] # Split_colon cs
      else (case Split_colon cs of
              [] \<Rightarrow> [[c]]
            | p # ps \<Rightarrow> (c # p) # ps))"

subsection \<open>\<^verbatim>\<open>strconv.Atoi\<close>\<close>

text \<open>
  \<^verbatim>\<open>Atoi\<close> returns a value together with an error. The value is \<open>0\<close> with a syntax error,
  and the nearest bound of \<^verbatim>\<open>int64\<close> with a range error. Strings of 1 to 18 bytes take the
  fast path of the library; all others go through \<^verbatim>\<open>ParseInt(s, 10, 0)\<close>, whose inner loop
  \<^verbatim>\<open>ParseUint\<close> returns at the first byte that is not a digit, or at the first digit that
  makes the value leave 64 bits, whichever comes first.
\<close>

datatype num_error = ErrSyntax | ErrRange

fun fast_digits :: "nat \<Rightarrow> string \<Rightarrow> nat option" where
  "fast_digits n [] = Some n"
| "fast_digits n (c # cs) =
     (if isDigit c then fast_digits (n * 10 + digit_of c) cs else None)"

definition Atoi_fast :: "string \<Rightarrow> int \<times> num_error option" where
  "Atoi_fast s0 =
     (let s = (if hd s0 = CHR ''-'' \<or> hd s0 = CHR ''+'' then tl s0 else s0)
      in if s = [] then (0, Some ErrSyntax)
         else (case fast_digits 0 s of
                 None \<Rightarrow> (0, Some ErrSyntax)
               | Some n \<Rightarrow> (if hd s0 = CHR ''-'' then - int n else int n, None)))"

definition maxUint64 :: nat where
  "maxUint64 = 18446744073709551615"

fun ParseUint_loop :: "nat \<Rightarrow> string \<Rightarrow> nat \<times> num_error option" where
  "ParseUint_loop n [] = (n, None)"
| "ParseUint_loop n (c # cs) =
     (if \<not> isDigit c then (0, Some ErrSyntax)
      else if n \<ge> maxUint64 div 10 + 1 then (maxUint64, Some ErrRange)
      else if n * 10 + digit_of c > maxUint64 then (maxUint64, Some ErrRange)
      else ParseUint_loop (n * 10 + digit_of c) cs)"

definition ParseUint :: "string \<Rightarrow> nat \<times> num_error option" where
  "ParseUint s = (if s = [] then (0, Some ErrSyntax) else ParseUint_loop 0 s)"

definition ParseInt :: "string \<Rightarrow> int \<times> num_error option" where
  "ParseInt s0 =
     (if s0 = [] then (0, Some ErrSyntax)
      else let neg = (hd s0 = CHR ''-'');
               s = (if hd s0 = CHR ''+'' \<or> neg then tl s0 else s0)
           in (case ParseUint s of
                 (un, Some ErrSyntax) \<Rightarrow> (0, Some ErrSyntax)
               | (un, _) \<Rightarrow>
                   if \<not> neg \<and> un \<ge> 2 ^ 63 then (2 ^ 63 - 1, Some ErrRange)
                   else if neg \<and> un > 2 ^ 63 then (- (2 ^ 63), Some ErrRange)
                   else (if neg then - int un else int un, None)))"

definition Atoi :: "string \<Rightarrow> int \<times> num_error option" where
  "Atoi s = (if 0 < length s \<and> length s < 19 then Atoi_fast s else ParseInt s)"

subsection \<open>\<^verbatim>\<open>fmt.Sprintf("%02d", n)\<close>\<close>

text \<open>
  The verb \<^verbatim>\<open>%02d\<close> asks for a width of two, filled with zeros. A negative number keeps its
  sign, which counts for the width; a number that needs more than two characters is written
  out in full.
\<close>

fun decimal :: "nat \<Rightarrow> string" where
  "decimal n = (if n < 10 then [digit_char n] else decimal (n div 10) @ [digit_char (n mod 10)])"

declare decimal.simps [simp del]

definition Sprintf_02d :: "int \<Rightarrow> string" where
  "Sprintf_02d n =
     (if n < 0 then CHR ''-'' # decimal (nat (- n))
      else if n < 10 then CHR ''0'' # decimal (nat n)
      else decimal (nat n))"

subsection \<open>\<^verbatim>\<open>time.Time\<close>, \<^verbatim>\<open>time.Parse\<close> and \<^verbatim>\<open>Weekday\<close>\<close>

text \<open>
  Every \<^verbatim>\<open>time.Time\<close> of the program comes from \<^verbatim>\<open>time.Parse\<close> with a layout that has a
  year, a month and a day and nothing else, so it is midnight UTC of a calendar day, or it
  is the zero \<^verbatim>\<open>Time\<close> that \<^verbatim>\<open>Parse\<close> returns with an error, midnight UTC of
  0001-01-01. Such an instant is represented by its day, counted from 0001-01-01 in the
  proleptic Gregorian calendar: the zero \<^verbatim>\<open>Time\<close> is day \<open>0\<close>, \<^verbatim>\<open>Before\<close> is \<open><\<close> and
  \<^verbatim>\<open>After\<close> is \<open>>\<close>.
\<close>

type_synonym Time = int

definition zeroTime :: Time where
  "zeroTime = 0"

definition isLeap :: "int \<Rightarrow> bool" where
  "isLeap y = (y mod 4 = 0 \<and> (y mod 100 \<noteq> 0 \<or> y mod 400 = 0))"

definition daysIn :: "int \<Rightarrow> int \<Rightarrow> int" where
  "daysIn m y =
     (if m = 2 then (if isLeap y then 29 else 28)
      else if m = 4 \<or> m = 6 \<or> m = 9 \<or> m = 11 then 30
      else 31)"

definition daysBefore :: "int \<Rightarrow> int" where
  "daysBefore m = [0, 31, 59, 90, 120, 151, 181, 212, 243, 273, 304, 334] ! nat (m - 1)"

text \<open>The day of year \<open>y\<close>, month \<open>m\<close> (1 to 12), day \<open>d\<close>, as \<^verbatim>\<open>time.Date\<close> computes it.\<close>

definition civil :: "int \<Rightarrow> int \<Rightarrow> int \<Rightarrow> Time" where
  "civil y m d =
     365 * (y - 1) + (y - 1) div 4 - (y - 1) div 100 + (y - 1) div 400
       + daysBefore m + (if isLeap y \<and> 2 < m then 1 else 0) + (d - 1)"

text \<open>
  \<^verbatim>\<open>Parse\<close> reads the year from exactly four digits and the month and the day from exactly
  two digits each, refuses a month outside 1 to 12, text after the day, and a day that the
  month of that year does not have.
\<close>

definition num2 :: "char \<Rightarrow> char \<Rightarrow> int" where
  "num2 a b = int (digit_of a * 10 + digit_of b)"

definition num4 :: "char \<Rightarrow> char \<Rightarrow> char \<Rightarrow> char \<Rightarrow> int" where
  "num4 a b c d = int (((digit_of a * 10 + digit_of b) * 10 + digit_of c) * 10 + digit_of d)"

definition checked_date :: "int \<Rightarrow> int \<Rightarrow> int \<Rightarrow> Time option" where
  "checked_date y m d =
     (if m \<le> 0 \<or> 12 < m then None
      else if d < 1 \<or> daysIn m y < d then None
      else Some (civil y m d))"

text \<open>\<^verbatim>\<open>time.Parse("20060102", s)\<close>; \<open>None\<close> is a returned error.\<close>

fun Parse_20060102 :: "string \<Rightarrow> Time option" where
  "Parse_20060102 [y1, y2, y3, y4, m1, m2, d1, d2] =
     (if isDigit y1 \<and> isDigit y2 \<and> isDigit y3 \<and> isDigit y4
         \<and> isDigit m1 \<and> isDigit m2 \<and> isDigit d1 \<and> isDigit d2
      then checked_date (num4 y1 y2 y3 y4) (num2 m1 m2) (num2 d1 d2)
      else None)"
| "Parse_20060102 s = None"

text \<open>\<^verbatim>\<open>time.Parse("2006-01-02", s)\<close>.\<close>

fun Parse_2006_01_02 :: "string \<Rightarrow> Time option" where
  "Parse_2006_01_02 [y1, y2, y3, y4, p, m1, m2, q, d1, d2] =
     (if isDigit y1 \<and> isDigit y2 \<and> isDigit y3 \<and> isDigit y4 \<and> p = CHR ''-''
         \<and> isDigit m1 \<and> isDigit m2 \<and> q = CHR ''-'' \<and> isDigit d1 \<and> isDigit d2
      then checked_date (num4 y1 y2 y3 y4) (num2 m1 m2) (num2 d1 d2)
      else None)"
| "Parse_2006_01_02 s = None"

text \<open>
  \<^verbatim>\<open>t, _ := time.Parse(...)\<close>: the error is dropped and \<open>t\<close> is the zero \<^verbatim>\<open>Time\<close> when there
  was one.
\<close>

definition ignoring_error :: "Time option \<Rightarrow> Time" where
  "ignoring_error r = (case r of None \<Rightarrow> zeroTime | Some t \<Rightarrow> t)"

text \<open>
  \<^verbatim>\<open>time.Weekday\<close> is an integer type with \<^verbatim>\<open>Sunday = 0\<close>, \<^verbatim>\<open>Monday = 1\<close>, up to
  \<^verbatim>\<open>Saturday = 6\<close>. Day \<open>0\<close>, 0001-01-01, is a Monday.
\<close>

definition Sunday :: nat where "Sunday = 0"
definition Monday :: nat where "Monday = 1"
definition Tuesday :: nat where "Tuesday = 2"
definition Wednesday :: nat where "Wednesday = 3"
definition Thursday :: nat where "Thursday = 4"
definition Friday :: nat where "Friday = 5"
definition Saturday :: nat where "Saturday = 6"

definition Weekday :: "Time \<Rightarrow> nat" where
  "Weekday t = nat ((t + 1) mod 7)"

section \<open>The time normalizer\<close>

text \<open>
  \<^verbatim>\<open>AdjustTime\<close> (lines 16 to 36). The hour is an \<^verbatim>\<open>int\<close> of at least 24 when 24 is
  subtracted from it, so the subtraction never wraps.
\<close>

definition AdjustTime :: "string \<Rightarrow> string" where
  "AdjustTime t =
     (let parts = Split_colon t
      in if length parts \<noteq> 3 then t
         else (case Atoi (parts ! 0) of
                 (hours, Some err) \<Rightarrow> t
               | (hours, None) \<Rightarrow>
                   Sprintf_02d (if hours \<ge> 24 then hours - 24 else hours)
                     @ '':'' @ parts ! 1 @ '':'' @ parts ! 2))"

section \<open>The table model\<close>

text \<open>The structs of lines 38 to 65 and 67 to 78.\<close>

record Stop =
  StopID :: string
  StopName :: string
  Lat :: string
  Lon :: string

record StopTime =
  TripID :: string
  StopID :: string
  ArrivalTime :: string
  DepartureTime :: string
  StopSequence :: int

record Trip =
  TripID :: string
  RouteID :: string
  ServiceID :: string

text \<open>
  \<^verbatim>\<open>Weekdays [7]bool\<close>, commented in the source \<^verbatim>\<open>Mon to Sun: true if service runs that day\<close>:
  an array of exactly seven booleans, read at an index below seven.
\<close>

datatype bool7 = Bool7 bool bool bool bool bool bool bool

fun index7 :: "bool7 \<Rightarrow> nat \<Rightarrow> bool" where
  "index7 (Bool7 a0 a1 a2 a3 a4 a5 a6) i = [a0, a1, a2, a3, a4, a5, a6] ! i"

record Calendar =
  ServiceID :: string
  StartDate :: string
  EndDate :: string
  Weekdays :: bool7

record TrainStop =
  StopName :: string
  ArrivalTime :: string
  DepartureTime :: string

record TrainInfoResponse =
  TrainNumber :: string
  Date :: string
  Stops :: "TrainStop list"

record TrainInfo =
  TripID :: string
  DepartureTime :: string
  ArrivalTime :: string

record TrainListResponse =
  DepartureStation :: string
  ArrivalStation :: string
  Date :: string
  Trains :: "TrainInfo list"

section \<open>Loading the tables\<close>

text \<open>
  Each loader opens a file and reads it whole with \<^verbatim>\<open>csv.Reader.ReadAll\<close>. What the loader
  gets is either an error, from \<^verbatim>\<open>os.Open\<close> or from \<^verbatim>\<open>ReadAll\<close>, or the records of the
  file, each a list of fields. A loader that gets an error returns it, and the handler
  answers with status 500. The loaders index the records without checking their length
  (\<^verbatim>\<open>loadStops\<close> apart): where the index is out of range, the Go runtime panics and the
  request ends with no answer, as it does for \<^verbatim>\<open>records[1:]\<close> when there is no record at
  all.
\<close>

datatype csv_file = ReadError | Records "string list list"

datatype failure = BadRequest | InternalServerError | NotFound | RuntimePanic

text \<open>\<^verbatim>\<open>loadStops\<close>, lines 94 to 123: a map from stop id to stop; short records are skipped.\<close>

fun stops_loop :: "(string \<rightharpoonup> Stop) \<Rightarrow> string list list \<Rightarrow> (string \<rightharpoonup> Stop)" where
  "stops_loop stops [] = stops"
| "stops_loop stops (record # rest) =
     (if length record < 4 then stops_loop stops rest
      else stops_loop
             (stops(record ! 0 \<mapsto>
                \<lparr>Stop.StopID = record ! 0, StopName = record ! 1,
                 Lat = record ! 2, Lon = record ! 3\<rparr>))
             rest)"

definition loadStops :: "csv_file \<Rightarrow> failure + (string \<rightharpoonup> Stop)" where
  "loadStops file =
     (case file of
        ReadError \<Rightarrow> Inl InternalServerError
      | Records [] \<Rightarrow> Inl RuntimePanic
      | Records (header # records) \<Rightarrow> Inr (stops_loop Map.empty records))"

text \<open>
  \<^verbatim>\<open>loadStopTimes\<close>, lines 126 to 154. The error of \<^verbatim>\<open>Atoi\<close> is dropped and its value
  kept: \<^verbatim>\<open>stopSequence, _ := strconv.Atoi(record[4])\<close>.
\<close>

definition stopTime_of_record :: "string list \<Rightarrow> StopTime" where
  "stopTime_of_record record =
     \<lparr>StopTime.TripID = record ! 0, StopID = record ! 3, ArrivalTime = record ! 1,
      DepartureTime = record ! 2, StopSequence = fst (Atoi (record ! 4))\<rparr>"

fun stopTimes_loop :: "StopTime list \<Rightarrow> string list list \<Rightarrow> failure + StopTime list" where
  "stopTimes_loop stopTimes [] = Inr stopTimes"
| "stopTimes_loop stopTimes (record # rest) =
     (if length record < 5 then Inl RuntimePanic
      else stopTimes_loop (stopTimes @ [stopTime_of_record record]) rest)"

definition loadStopTimes :: "csv_file \<Rightarrow> failure + StopTime list" where
  "loadStopTimes file =
     (case file of
        ReadError \<Rightarrow> Inl InternalServerError
      | Records [] \<Rightarrow> Inl RuntimePanic
      | Records (header # records) \<Rightarrow> stopTimes_loop [] records)"

text \<open>\<^verbatim>\<open>loadTrips\<close>, lines 157 to 180.\<close>

definition trip_of_record :: "string list \<Rightarrow> Trip" where
  "trip_of_record record =
     \<lparr>Trip.TripID = record ! 2, RouteID = record ! 0, ServiceID = record ! 1\<rparr>"

fun trips_loop :: "Trip list \<Rightarrow> string list list \<Rightarrow> failure + Trip list" where
  "trips_loop trips [] = Inr trips"
| "trips_loop trips (record # rest) =
     (if length record < 3 then Inl RuntimePanic
      else trips_loop (trips @ [trip_of_record record]) rest)"

definition loadTrips :: "csv_file \<Rightarrow> failure + Trip list" where
  "loadTrips file =
     (case file of
        ReadError \<Rightarrow> Inl InternalServerError
      | Records [] \<Rightarrow> Inl RuntimePanic
      | Records (header # records) \<Rightarrow> trips_loop [] records)"

text \<open>
  \<^verbatim>\<open>loadCalendar\<close>, lines 183 to 217. The seven flags are stored in the order of the
  columns: Monday at index 0, Sunday at index 6.
\<close>

definition calendar_of_record :: "string list \<Rightarrow> Calendar" where
  "calendar_of_record record =
     \<lparr>Calendar.ServiceID = record ! 0, StartDate = record ! 8, EndDate = record ! 9,
      Weekdays = Bool7 (record ! 1 = ''1'') (record ! 2 = ''1'') (record ! 3 = ''1'')
                       (record ! 4 = ''1'') (record ! 5 = ''1'') (record ! 6 = ''1'')
                       (record ! 7 = ''1'')\<rparr>"

fun calendars_loop :: "Calendar list \<Rightarrow> string list list \<Rightarrow> failure + Calendar list" where
  "calendars_loop calendars [] = Inr calendars"
| "calendars_loop calendars (record # rest) =
     (if length record < 10 then Inl RuntimePanic
      else calendars_loop (calendars @ [calendar_of_record record]) rest)"

definition loadCalendar :: "csv_file \<Rightarrow> failure + Calendar list" where
  "loadCalendar file =
     (case file of
        ReadError \<Rightarrow> Inl InternalServerError
      | Records [] \<Rightarrow> Inl RuntimePanic
      | Records (header # records) \<Rightarrow> calendars_loop [] records)"

text \<open>The four files under \<^verbatim>\<open>gtfs/\<close> as a request finds them.\<close>

record gtfs =
  stops_txt :: csv_file
  stop_times_txt :: csv_file
  trips_txt :: csv_file
  calendar_txt :: csv_file

section \<open>The calendar validity evaluator\<close>

text \<open>
  \<^verbatim>\<open>isValidTrip\<close>, lines 220 to 242. The array \<^verbatim>\<open>cal.Weekdays\<close> is read at the integer value
  of \<^verbatim>\<open>date.Weekday()\<close>. The calls of \<^verbatim>\<open>log.Printf\<close> have no part in the result.
\<close>

fun isValidTrip :: "Trip \<Rightarrow> Time \<Rightarrow> Calendar list \<Rightarrow> bool" where
  "isValidTrip trip date [] = False"
| "isValidTrip trip date (cal # calendars) =
     (if Calendar.ServiceID cal = Trip.ServiceID trip then
        (let startDate = ignoring_error (Parse_20060102 (StartDate cal));
             endDate = ignoring_error (Parse_20060102 (EndDate cal))
         in if date < startDate \<or> date > endDate then isValidTrip trip date calendars
            else if index7 (Weekdays cal) (Weekday date) then True
            else isValidTrip trip date calendars)
      else isValidTrip trip date calendars)"

section \<open>The itinerary builder\<close>

text \<open>
  \<^verbatim>\<open>handleGetTrainInfo\<close>, lines 245 to 331. Reading a key that a Go map does not have gives
  the zero value of the element type, here a \<^verbatim>\<open>Stop\<close> of four empty strings.
\<close>

definition lookup_stop :: "(string \<rightharpoonup> Stop) \<Rightarrow> string \<Rightarrow> Stop" where
  "lookup_stop stops k =
     (case stops k of
        None \<Rightarrow> \<lparr>Stop.StopID = '''', StopName = '''', Lat = '''', Lon = ''''\<rparr>
      | Some stop \<Rightarrow> stop)"

definition or_placeholder :: "string \<Rightarrow> string" where
  "or_placeholder t = (if t = '''' then ''N/A'' else t)"

definition trainStop :: "(string \<rightharpoonup> Stop) \<Rightarrow> StopTime \<Rightarrow> TrainStop" where
  "trainStop stops stopTime =
     \<lparr>TrainStop.StopName = Stop.StopName (lookup_stop stops (StopTime.StopID stopTime)),
      ArrivalTime = or_placeholder (AdjustTime (StopTime.ArrivalTime stopTime)),
      DepartureTime = or_placeholder (AdjustTime (StopTime.DepartureTime stopTime))\<rparr>"

text \<open>The loop of lines 298 to 318 for one trip, appending to \<^verbatim>\<open>stopsWithTimes\<close>.\<close>

fun stops_of_trip ::
  "(string \<rightharpoonup> Stop) \<Rightarrow> Trip \<Rightarrow> TrainStop list \<Rightarrow> StopTime list \<Rightarrow> TrainStop list" where
  "stops_of_trip stops trip stopsWithTimes [] = stopsWithTimes"
| "stops_of_trip stops trip stopsWithTimes (stopTime # rest) =
     (if StopTime.TripID stopTime = Trip.TripID trip
      then stops_of_trip stops trip (stopsWithTimes @ [trainStop stops stopTime]) rest
      else stops_of_trip stops trip stopsWithTimes rest)"

text \<open>The loop of lines 297 to 319 over the matching trips.\<close>

fun stops_of_trips ::
  "(string \<rightharpoonup> Stop) \<Rightarrow> StopTime list \<Rightarrow> TrainStop list \<Rightarrow> Trip list \<Rightarrow> TrainStop list" where
  "stops_of_trips stops stopTimes stopsWithTimes [] = stopsWithTimes"
| "stops_of_trips stops stopTimes stopsWithTimes (trip # rest) =
     stops_of_trips stops stopTimes (stops_of_trip stops trip stopsWithTimes stopTimes) rest"

text \<open>The loop of lines 283 to 288.\<close>

fun matching_trips ::
  "string \<Rightarrow> Time \<Rightarrow> Calendar list \<Rightarrow> Trip list \<Rightarrow> Trip list \<Rightarrow> Trip list" where
  "matching_trips trainNumber parsedDate calendars matchingTrips [] = matchingTrips"
| "matching_trips trainNumber parsedDate calendars matchingTrips (trip # rest) =
     (if Trip.TripID trip = trainNumber \<and> isValidTrip trip parsedDate calendars
      then matching_trips trainNumber parsedDate calendars (matchingTrips @ [trip]) rest
      else matching_trips trainNumber parsedDate calendars matchingTrips rest)"

definition handleGetTrainInfo :: "string \<Rightarrow> string \<Rightarrow> gtfs \<Rightarrow> failure + TrainInfoResponse" where
  "handleGetTrainInfo trainNumber date files =
     (case Parse_2006_01_02 date of
        None \<Rightarrow> Inl BadRequest
      | Some parsedDate \<Rightarrow>
     (case loadStops (stops_txt files) of
        Inl err \<Rightarrow> Inl err
      | Inr stops \<Rightarrow>
     (case loadStopTimes (stop_times_txt files) of
        Inl err \<Rightarrow> Inl err
      | Inr stopTimes \<Rightarrow>
     (case loadTrips (trips_txt files) of
        Inl err \<Rightarrow> Inl err
      | Inr trips \<Rightarrow>
     (case loadCalendar (calendar_txt files) of
        Inl err \<Rightarrow> Inl err
      | Inr calendars \<Rightarrow>
          (let matchingTrips = matching_trips trainNumber parsedDate calendars [] trips
           in if length matchingTrips = 0 then Inl NotFound
              else Inr \<lparr>TrainNumber = trainNumber, TrainInfoResponse.Date = date,
                        Stops = stops_of_trips stops stopTimes [] matchingTrips\<rparr>))))))"

section \<open>The station-pair search\<close>

text \<open>
  \<^verbatim>\<open>handleGetTrainList\<close>, lines 335 to 461, and \<^verbatim>\<open>findStopIndex\<close>, lines 464 to 471.

  The loop of lines 375 to 382 ranges over a Go map, and Go leaves the order of that
  iteration open. The order is therefore an argument of the model: the function \<open>order\<close>
  gives, for the map that was loaded, the sequence of stops that the loop visits.
\<close>

fun resolve_ids :: "string \<Rightarrow> string \<Rightarrow> string \<times> string \<Rightarrow> Stop list \<Rightarrow> string \<times> string" where
  "resolve_ids departureStation arrivalStation ids [] = ids"
| "resolve_ids departureStation arrivalStation (departureID, arrivalID) (stop # rest) =
     resolve_ids departureStation arrivalStation
       (if Stop.StopName stop = departureStation then Stop.StopID stop else departureID,
        if Stop.StopName stop = arrivalStation then Stop.StopID stop else arrivalID)
       rest"

text \<open>The four variables of lines 404 and 405, and the loop of lines 407 to 422.\<close>

record scan_vars =
  departureTime :: string
  arrivalTime :: string
  hasDeparture :: bool
  hasArrival :: bool

definition scan_start :: scan_vars where
  "scan_start =
     \<lparr>departureTime = '''', arrivalTime = '''', hasDeparture = False, hasArrival = False\<rparr>"

definition scan_step :: "Trip \<Rightarrow> string \<Rightarrow> string \<Rightarrow> scan_vars \<Rightarrow> StopTime \<Rightarrow> scan_vars" where
  "scan_step trip departureID arrivalID v stopTime =
     (if StopTime.TripID stopTime = Trip.TripID trip then
        (let v1 = (if StopTime.StopID stopTime = departureID
                   then v\<lparr>hasDeparture := True,
                          departureTime := AdjustTime (StopTime.DepartureTime stopTime)\<rparr>
                   else v)
         in if StopTime.StopID stopTime = arrivalID
            then v1\<lparr>hasArrival := True,
                    arrivalTime := AdjustTime (StopTime.ArrivalTime stopTime)\<rparr>
            else v1)
      else v)"

fun scan_stopTimes :: "Trip \<Rightarrow> string \<Rightarrow> string \<Rightarrow> scan_vars \<Rightarrow> StopTime list \<Rightarrow> scan_vars" where
  "scan_stopTimes trip departureID arrivalID v [] = v"
| "scan_stopTimes trip departureID arrivalID v (stopTime # rest) =
     (let v' = scan_step trip departureID arrivalID v stopTime
      in if hasDeparture v' \<and> hasArrival v' then v'
         else scan_stopTimes trip departureID arrivalID v' rest)"

fun findStopIndex_from :: "int \<Rightarrow> string \<Rightarrow> string \<Rightarrow> StopTime list \<Rightarrow> int" where
  "findStopIndex_from i tripID stopID [] = - 1"
| "findStopIndex_from i tripID stopID (stopTime # rest) =
     (if StopTime.TripID stopTime = tripID \<and> StopTime.StopID stopTime = stopID then i
      else findStopIndex_from (i + 1) tripID stopID rest)"

definition findStopIndex :: "string \<Rightarrow> string \<Rightarrow> StopTime list \<Rightarrow> int" where
  "findStopIndex tripID stopID stopTimes = findStopIndex_from 0 tripID stopID stopTimes"

text \<open>The loop of lines 399 to 438 over the trips, appending to \<^verbatim>\<open>trainsWithStops\<close>.\<close>

fun trains_loop ::
  "Time \<Rightarrow> Calendar list \<Rightarrow> StopTime list \<Rightarrow> string \<Rightarrow> string \<Rightarrow>
   TrainInfo list \<Rightarrow> Trip list \<Rightarrow> TrainInfo list" where
  "trains_loop parsedDate calendars stopTimes departureID arrivalID trainsWithStops [] =
     trainsWithStops"
| "trains_loop parsedDate calendars stopTimes departureID arrivalID trainsWithStops (trip # rest) =
     (if \<not> isValidTrip trip parsedDate calendars
      then trains_loop parsedDate calendars stopTimes departureID arrivalID trainsWithStops rest
      else
        (let v = scan_stopTimes trip departureID arrivalID scan_start stopTimes
         in if hasDeparture v \<and> hasArrival v \<and> departureTime v \<noteq> '''' \<and> arrivalTime v \<noteq> ''''
               \<and> findStopIndex (Trip.TripID trip) departureID stopTimes
                   < findStopIndex (Trip.TripID trip) arrivalID stopTimes
            then trains_loop parsedDate calendars stopTimes departureID arrivalID
                   (trainsWithStops @
                      [\<lparr>TrainInfo.TripID = Trip.TripID trip,
                        DepartureTime = departureTime v,
                        ArrivalTime = arrivalTime v\<rparr>])
                   rest
            else trains_loop parsedDate calendars stopTimes departureID arrivalID
                   trainsWithStops rest))"

text \<open>
  The date of the answer is \<^verbatim>\<open>parsedDate.Format("2006-01-02")\<close>, which writes a date that
  \<^verbatim>\<open>Parse\<close> accepted under the same layout back as the text it was read from.
\<close>

definition handleGetTrainList ::
  "((string \<rightharpoonup> Stop) \<Rightarrow> Stop list) \<Rightarrow> string \<Rightarrow> string \<Rightarrow> string \<Rightarrow> gtfs \<Rightarrow>
   failure + TrainListResponse" where
  "handleGetTrainList order departureStation arrivalStation date files =
     (case Parse_2006_01_02 date of
        None \<Rightarrow> Inl BadRequest
      | Some parsedDate \<Rightarrow>
     (case loadStops (stops_txt files) of
        Inl err \<Rightarrow> Inl err
      | Inr stops \<Rightarrow>
     (case loadStopTimes (stop_times_txt files) of
        Inl err \<Rightarrow> Inl err
      | Inr stopTimes \<Rightarrow>
     (case loadTrips (trips_txt files) of
        Inl err \<Rightarrow> Inl err
      | Inr trips \<Rightarrow>
     (case loadCalendar (calendar_txt files) of
        Inl err \<Rightarrow> Inl err
      | Inr calendars \<Rightarrow>
     (case resolve_ids departureStation arrivalStation ('''', '''') (order stops) of
        (departureID, arrivalID) \<Rightarrow>
          if departureID = '''' \<or> arrivalID = '''' then Inl NotFound
          else
            (let trainsWithStops =
                   trains_loop parsedDate calendars stopTimes departureID arrivalID [] trips
             in if length trainsWithStops = 0 then Inl NotFound
                else Inr \<lparr>DepartureStation = departureStation,
                          ArrivalStation = arrivalStation,
                          TrainListResponse.Date = date,
                          Trains = trainsWithStops\<rparr>)))))))"

section \<open>Notions used to state the properties\<close>

text \<open>
  What lines 222 to 235 check for one calendar entry: the service id is the trip's, the
  date is neither before the start date nor after the end date, and the array of flags is
  set at the integer value of the weekday of the date.
\<close>

definition authorizes :: "Trip \<Rightarrow> Time \<Rightarrow> Calendar \<Rightarrow> bool" where
  "authorizes trip date cal =
     (Calendar.ServiceID cal = Trip.ServiceID trip
      \<and> \<not> (date < ignoring_error (Parse_20060102 (StartDate cal))
            \<or> date > ignoring_error (Parse_20060102 (EndDate cal)))
      \<and> index7 (Weekdays cal) (Weekday date))"

text \<open>
  The specification's reading of the calendar: the flags are indexed from Monday, Monday at
  0 and Sunday at 6, and an entry counts when both its dates parse and the date lies
  between them, bounds included.
\<close>

definition monday_index :: "nat \<Rightarrow> nat" where
  "monday_index weekday = (weekday + 6) mod 7"

definition spec_authorizes :: "Trip \<Rightarrow> Time \<Rightarrow> Calendar \<Rightarrow> bool" where
  "spec_authorizes trip date cal =
     (Calendar.ServiceID cal = Trip.ServiceID trip
      \<and> (case (Parse_20060102 (StartDate cal), Parse_20060102 (EndDate cal)) of
            (Some start_date, Some end_date) \<Rightarrow> start_date \<le> date \<and> date \<le> end_date
          | _ \<Rightarrow> False)
      \<and> index7 (Weekdays cal) (monday_index (Weekday date)))"

definition spec_isValidTrip :: "Trip \<Rightarrow> Time \<Rightarrow> Calendar list \<Rightarrow> bool" where
  "spec_isValidTrip trip date calendars = list_ex (spec_authorizes trip date) calendars"

text \<open>
  The specification's itinerary of a trip id: the stop times of that trip id in the order
  of the table, each with the name of its stop and both times normalized.
\<close>

definition spec_itinerary :: "(string \<rightharpoonup> Stop) \<Rightarrow> StopTime list \<Rightarrow> string \<Rightarrow> TrainStop list" where
  "spec_itinerary stops stopTimes trainNumber =
     map (\<lambda>stopTime.
            \<lparr>TrainStop.StopName = Stop.StopName (lookup_stop stops (StopTime.StopID stopTime)),
             ArrivalTime = AdjustTime (StopTime.ArrivalTime stopTime),
             DepartureTime = AdjustTime (StopTime.DepartureTime stopTime)\<rparr>)
         (filter (\<lambda>stopTime. StopTime.TripID stopTime = trainNumber) stopTimes)"

text \<open>
  Rows of the stop-times table that belong to a trip and a stop: the first such row, the
  last such row, and the rows that come before the first one.
\<close>

definition is_stop_of :: "string \<Rightarrow> string \<Rightarrow> StopTime \<Rightarrow> bool" where
  "is_stop_of tripID stopID stopTime =
     (StopTime.TripID stopTime = tripID \<and> StopTime.StopID stopTime = stopID)"

definition first_match :: "string \<Rightarrow> string \<Rightarrow> StopTime list \<Rightarrow> StopTime option" where
  "first_match tripID stopID rows = find (is_stop_of tripID stopID) rows"

definition last_match :: "string \<Rightarrow> string \<Rightarrow> StopTime list \<Rightarrow> StopTime option" where
  "last_match tripID stopID rows = find (is_stop_of tripID stopID) (rev rows)"

definition rows_before :: "string \<Rightarrow> string \<Rightarrow> StopTime list \<Rightarrow> StopTime list" where
  "rows_before tripID stopID rows = takeWhile (\<lambda>row. \<not> is_stop_of tripID stopID row) rows"

section \<open>Example tables\<close>

text \<open>
  A calendar entry for a service that runs from Monday to Friday during 2024, and a trip
  of that service.
\<close>

definition weekday_calendar :: Calendar where
  "weekday_calendar =
     \<lparr>Calendar.ServiceID = ''WKDY'', StartDate = ''20240101'', EndDate = ''20241231'',
      Weekdays = Bool7 True True True True True False False\<rparr>"

definition trip_101 :: Trip where
  "trip_101 = \<lparr>Trip.TripID = ''101'', RouteID = ''R1'', ServiceID = ''WKDY''\<rparr>"

text \<open>The same entry with its start date written with dashes, which the layout refuses.\<close>

definition dashed_start_calendar :: Calendar where
  "dashed_start_calendar = weekday_calendar\<lparr>StartDate := ''2024-01-01''\<rparr>"

definition dashed_end_calendar :: Calendar where
  "dashed_end_calendar = weekday_calendar\<lparr>EndDate := ''2024-12-31''\<rparr>"

text \<open>
  A feed of two stops, Central and North, and one trip, 5, that leaves Central at 08:00:00
  and reaches North at 08:30:00, on the service above.
\<close>

definition stops_records :: "string list list" where
  "stops_records =
     [[''stop_id'', ''stop_name'', ''stop_lat'', ''stop_lon''],
      [''A'', ''Central'', ''44.4'', ''26.1''],
      [''B'', ''North'', ''44.5'', ''26.0'']]"

definition stop_times_header :: "string list" where
  "stop_times_header =
     [''trip_id'', ''arrival_time'', ''departure_time'', ''stop_id'', ''stop_sequence'']"

definition trips_records :: "string list list" where
  "trips_records =
     [[''route_id'', ''service_id'', ''trip_id''],
      [''R1'', ''WKDY'', ''5'']]"

definition calendar_records :: "string list list" where
  "calendar_records =
     [[''service_id'', ''monday'', ''tuesday'', ''wednesday'', ''thursday'', ''friday'',
       ''saturday'', ''sunday'', ''start_date'', ''end_date''],
      [''WKDY'', ''1'', ''1'', ''1'', ''1'', ''1'', ''0'', ''0'', ''20240101'', ''20241231'']]"

definition small_feed :: gtfs where
  "small_feed =
     \<lparr>stops_txt = Records stops_records,
      stop_times_txt = Records
        [stop_times_header,
         [''5'', '''', ''08:00:00'', ''A'', ''1''],
         [''5'', ''08:30:00'', '''', ''B'', ''2'']],
      trips_txt = Records trips_records,
      calendar_txt = Records calendar_records\<rparr>"

text \<open>The same feed with the row of trip 5 twice in \<^verbatim>\<open>trips.txt\<close>.\<close>

definition doubled_trip_feed :: gtfs where
  "doubled_trip_feed =
     small_feed\<lparr>trips_txt := Records (trips_records @ [[''R1'', ''WKDY'', ''5'']])\<rparr>"

text \<open>The same feed with no row for trip 5 in \<^verbatim>\<open>stop_times.txt\<close>.\<close>

definition no_stop_times_feed :: gtfs where
  "no_stop_times_feed =
     small_feed\<lparr>stop_times_txt := Records
        [stop_times_header, [''6'', ''09:00:00'', ''09:01:00'', ''A'', ''1'']]\<rparr>"

text \<open>
  A feed where trip 5 runs a loop: it leaves Central at 08:00:00, comes back to it and
  leaves it again at 09:00:00, and reaches North at 10:00:00.
\<close>

definition loop_feed :: gtfs where
  "loop_feed =
     small_feed\<lparr>stop_times_txt := Records
        [stop_times_header,
         [''5'', ''07:55:00'', ''08:00:00'', ''A'', ''1''],
         [''5'', ''08:55:00'', ''09:00:00'', ''A'', ''2''],
         [''5'', ''10:00:00'', ''10:05:00'', ''B'', ''3'']]\<rparr>"

text \<open>One order in which the runtime may visit the map of the two stops.\<close>

definition a_then_b :: "(string \<rightharpoonup> Stop) \<Rightarrow> Stop list" where
  "a_then_b stops = [lookup_stop stops ''A'', lookup_stop stops ''B'']"

text \<open>
  Rows of \<^verbatim>\<open>stop_times.txt\<close> whose last field is not a number, and is a number too large
  for an \<^verbatim>\<open>int\<close>.
\<close>

definition odd_sequence_rows :: "string list list" where
  "odd_sequence_rows =
     [[''5'', ''07:55:00'', ''08:00:00'', ''A'', ''first''],
      [''5'', ''08:30:00'', ''08:31:00'', ''B'', ''99999999999999999999'']]"

text \<open>The tables that \<^verbatim>\<open>loadStopTimes\<close> returns for the feeds above.\<close>

definition small_stop_times :: "StopTime list" where
  "small_stop_times =
     [\<lparr>StopTime.TripID = ''5'', StopID = ''A'', ArrivalTime = '''',
       DepartureTime = ''08:00:00'', StopSequence = 1\<rparr>,
      \<lparr>StopTime.TripID = ''5'', StopID = ''B'', ArrivalTime = ''08:30:00'',
       DepartureTime = '''', StopSequence = 2\<rparr>]"

definition loop_stop_times :: "StopTime list" where
  "loop_stop_times =
     [\<lparr>StopTime.TripID = ''5'', StopID = ''A'', ArrivalTime = ''07:55:00'',
       DepartureTime = ''08:00:00'', StopSequence = 1\<rparr>,
      \<lparr>StopTime.TripID = ''5'', StopID = ''A'', ArrivalTime = ''08:55:00'',
       DepartureTime = ''09:00:00'', StopSequence = 2\<rparr>,
      \<lparr>StopTime.TripID = ''5'', StopID = ''B'', ArrivalTime = ''10:00:00'',
       DepartureTime = ''10:05:00'', StopSequence = 3\<rparr>]"

text \<open>The map that \<^verbatim>\<open>loadStops\<close> returns for them, and the one row of their trips.\<close>

definition two_stops :: "string \<rightharpoonup> Stop" where
  "two_stops = stops_loop Map.empty (tl stops_records)"

definition trip_5 :: Trip where
  "trip_5 = \<lparr>Trip.TripID = ''5'', RouteID = ''R1'', ServiceID = ''WKDY''\<rparr>"

section \<open>Auxiliary facts\<close>

subsection \<open>Splitting, digits and the time normalizer\<close>

lemma Split_colon_nonempty: "Split_colon t \<noteq> []"
  by (induction t) (auto split: list.splits)

lemma Split_colon_no_colon:
  "CHR '':'' \<notin> set a \<Longrightarrow> Split_colon a = [a]"
  by (induction a) auto

lemma Split_colon_append:
  "CHR '':'' \<notin> set a \<Longrightarrow> Split_colon (a @ CHR '':'' # rest) = a # Split_colon rest"
  by (induction a) auto

lemma Split_colon_parts:
  "p \<in> set (Split_colon t) \<Longrightarrow> CHR '':'' \<notin> set p"
proof (induction t arbitrary: p)
  case Nil
  then show ?case by simp
next
  case (Cons c cs)
  then show ?case
    by (cases "Split_colon cs") (auto split: if_splits)
qed

lemma digit_char_zero: "digit_char 0 = CHR ''0''"
  by code_simp

lemma digit_char_not_colon: "d < 10 \<Longrightarrow> digit_char d \<noteq> CHR '':''"
proof
  assume d: "d < 10" and "digit_char d = CHR '':''"
  then have "(of_char (char_of (48 + d)) :: nat) = of_char CHR '':''"
    by (simp add: digit_char_def)
  with d show False by simp
qed

lemma digit_char_props:
  "d < 10 \<Longrightarrow> isDigit (digit_char d) \<and> digit_of (digit_char d) = d"
  by (auto simp: isDigit_def digit_of_def digit_char_def)

lemma decimal_chars: "c \<in> set (decimal n) \<Longrightarrow> \<exists>d<10. c = digit_char d"
proof (induction n arbitrary: c rule: decimal.induct)
  case (1 n)
  show ?case
  proof (cases "n < 10")
    case True
    with "1.prems" show ?thesis by (auto simp: decimal.simps [of n])
  next
    case False
    with "1.prems" have "c \<in> set (decimal (n div 10)) \<or> c = digit_char (n mod 10)"
      by (auto simp: decimal.simps [of n])
    then show ?thesis
    proof
      assume "c \<in> set (decimal (n div 10))"
      with False "1.IH" show ?thesis by blast
    next
      assume "c = digit_char (n mod 10)"
      moreover have "n mod 10 < 10" by simp
      ultimately show ?thesis by blast
    qed
  qed
qed

lemma decimal_no_colon: "CHR '':'' \<notin> set (decimal n)"
proof
  assume "CHR '':'' \<in> set (decimal n)"
  then obtain d where "d < 10" and "CHR '':'' = digit_char d"
    using decimal_chars by blast
  then show False
    using digit_char_not_colon [of d] by simp
qed

lemma fast_digits_append:
  "fast_digits n (xs @ ys) = (case fast_digits n xs of None \<Rightarrow> None | Some k \<Rightarrow> fast_digits k ys)"
  by (induction xs arbitrary: n) auto

lemma fast_digits_decimal: "fast_digits 0 (decimal n) = Some n"
proof (induction n rule: decimal.induct)
  case (1 n)
  show ?case
  proof (cases "n < 10")
    case True
    then show ?thesis
      by (simp add: decimal.simps [of n] digit_char_props)
  next
    case False
    have "n mod 10 < 10" by simp
    with False "1.IH" show ?thesis
      by (simp add: decimal.simps [of n] fast_digits_append digit_char_props)
  qed
qed

lemma decimal_nonempty: "1 \<le> length (decimal n)"
  by (cases "n < 10") (simp_all add: decimal.simps [of n])

lemma decimal_three_digits: "100 \<le> n \<Longrightarrow> 3 \<le> length (decimal n)"
proof -
  assume a: "100 \<le> n"
  then have "\<not> n < 10" and "\<not> n div 10 < 10" by auto
  then have "length (decimal n) = length (decimal (n div 10 div 10)) + 2"
    by (simp add: decimal.simps [of n] decimal.simps [of "n div 10"])
  with decimal_nonempty [of "n div 10 div 10"] show ?thesis by simp
qed

lemma Sprintf_02d_no_colon: "CHR '':'' \<notin> set (Sprintf_02d n)"
  using decimal_no_colon by (auto simp: Sprintf_02d_def)

lemma Sprintf_02d_two_digits:
  "0 \<le> n \<Longrightarrow> n < 100 \<Longrightarrow>
   Sprintf_02d n = [digit_char (nat n div 10), digit_char (nat n mod 10)]"
proof -
  assume a: "0 \<le> n" "n < 100"
  show ?thesis
  proof (cases "n < 10")
    case True
    with a have "nat n < 10" by simp
    with a True show ?thesis
      by (simp add: Sprintf_02d_def decimal.simps [of "nat n"] digit_char_zero)
  next
    case False
    with a have "nat n div 10 < 10" "\<not> nat n < 10" by auto
    with a False show ?thesis
      by (simp add: Sprintf_02d_def decimal.simps [of "nat n"] decimal.simps [of "nat n div 10"])
  qed
qed

lemma AdjustTime_parts:
  "Split_colon t = [h, m, s] \<Longrightarrow> Atoi h = (n, None) \<Longrightarrow>
   AdjustTime t = Sprintf_02d (if 24 \<le> n then n - 24 else n) @ '':'' @ m @ '':'' @ s"
  by (simp add: AdjustTime_def)

lemma AdjustTime_shape: "length (Split_colon t) \<noteq> 3 \<Longrightarrow> AdjustTime t = t"
  by (simp add: AdjustTime_def)

lemma AdjustTime_hour_error:
  "Atoi (Split_colon t ! 0) = (n, Some e) \<Longrightarrow> AdjustTime t = t"
  by (simp add: AdjustTime_def Let_def)

lemma Split_colon_rebuilt:
  "CHR '':'' \<notin> set a \<Longrightarrow> CHR '':'' \<notin> set m \<Longrightarrow> CHR '':'' \<notin> set s \<Longrightarrow>
   Split_colon (a @ '':'' @ m @ '':'' @ s) = [a, m, s]"
  by (simp add: Split_colon_append Split_colon_no_colon)

subsection \<open>The calendar and the itinerary\<close>

lemma isValidTrip_iff:
  "isValidTrip trip date calendars \<longleftrightarrow> (\<exists>cal \<in> set calendars. authorizes trip date cal)"
  by (induction calendars) (auto simp: authorizes_def Let_def)

lemma Weekday_below_7: "Weekday date < 7"
  by (simp add: Weekday_def nat_less_iff)

lemma unparsable_end_never:
  "Parse_20060102 (EndDate cal) = None \<Longrightarrow> zeroTime < date \<Longrightarrow> \<not> authorizes trip date cal"
  by (simp add: authorizes_def ignoring_error_def)

lemma Parse_zero: "Parse_20060102 ''00010101'' = Some zeroTime"
  by code_simp

lemma unparsable_start_zero:
  "Parse_20060102 (StartDate cal) = None \<Longrightarrow>
   authorizes trip date cal = authorizes trip date (cal\<lparr>StartDate := ''00010101''\<rparr>)"
  by (simp add: authorizes_def ignoring_error_def Parse_zero del: Parse_20060102.simps)

lemma matching_trips_eq:
  "matching_trips n d cals acc trips =
   acc @ filter (\<lambda>trip. Trip.TripID trip = n \<and> isValidTrip trip d cals) trips"
  by (induction trips arbitrary: acc) auto

lemma stops_of_trip_eq:
  "stops_of_trip stops trip acc sts =
   acc @ map (trainStop stops) (filter (\<lambda>s. StopTime.TripID s = Trip.TripID trip) sts)"
  by (induction sts arbitrary: acc) auto

lemma stops_of_trips_eq:
  "stops_of_trips stops sts acc trips =
   acc @ concat (map (\<lambda>trip. map (trainStop stops)
                        (filter (\<lambda>s. StopTime.TripID s = Trip.TripID trip) sts)) trips)"
  by (induction trips arbitrary: acc) (auto simp: stops_of_trip_eq)

lemma concat_map_same:
  "\<forall>x \<in> set xs. f x = ys \<Longrightarrow> concat (map f xs) = concat (replicate (length xs) ys)"
  by (induction xs) auto

lemma handleGetTrainInfo_loaded:
  assumes "Parse_2006_01_02 date = Some d"
    and "loadStops (stops_txt files) = Inr stops"
    and "loadStopTimes (stop_times_txt files) = Inr sts"
    and "loadTrips (trips_txt files) = Inr trips"
    and "loadCalendar (calendar_txt files) = Inr cals"
  shows "handleGetTrainInfo n date files =
         (if filter (\<lambda>trip. Trip.TripID trip = n \<and> isValidTrip trip d cals) trips = []
          then Inl NotFound
          else Inr \<lparr>TrainNumber = n, TrainInfoResponse.Date = date,
                    Stops = concat (replicate
                      (length (filter (\<lambda>trip. Trip.TripID trip = n \<and> isValidTrip trip d cals) trips))
                      (map (trainStop stops) (filter (\<lambda>s. StopTime.TripID s = n) sts)))\<rparr>)"
proof -
  let ?m = "filter (\<lambda>trip. Trip.TripID trip = n \<and> isValidTrip trip d cals) trips"
  have "concat (map (\<lambda>trip. map (trainStop stops)
                (filter (\<lambda>s. StopTime.TripID s = Trip.TripID trip) sts)) ?m)
        = concat (replicate (length ?m) (map (trainStop stops) (filter (\<lambda>s. StopTime.TripID s = n) sts)))"
    by (rule concat_map_same) simp
  with assms show ?thesis
    by (simp add: handleGetTrainInfo_def matching_trips_eq stops_of_trips_eq Let_def)
qed

subsection \<open>The scan of the stop times\<close>

lemma findStopIndex_from_eq:
  "findStopIndex_from i tid sid xs =
     (if \<exists>s \<in> set xs. is_stop_of tid sid s
      then i + int (length (rows_before tid sid xs)) else - 1)"
  by (induction xs arbitrary: i) (auto simp: is_stop_of_def rows_before_def)

lemma findStopIndex_eq:
  "findStopIndex tid sid xs =
     (if \<exists>s \<in> set xs. is_stop_of tid sid s
      then int (length (rows_before tid sid xs)) else - 1)"
  by (simp add: findStopIndex_def findStopIndex_from_eq)

lemma rows_before_first:
  assumes "\<exists>s \<in> set xs. is_stop_of tid sid s"
  shows "length (rows_before tid sid xs) < length xs"
    and "is_stop_of tid sid (xs ! length (rows_before tid sid xs))"
    and "first_match tid sid xs = Some (xs ! length (rows_before tid sid xs))"
    and "rows_before tid sid xs = take (length (rows_before tid sid xs)) xs"
  using assms
  by (induction xs) (auto simp: rows_before_def first_match_def)

lemma rows_before_none:
  "j < length (rows_before tid sid xs) \<Longrightarrow> \<not> is_stop_of tid sid (xs ! j)"
  unfolding rows_before_def
  by (metis (mono_tags, lifting) nth_mem takeWhile_nth set_takeWhileD)

lemma scan_step_arrival:
  "hasArrival (scan_step trip dep arr v x) =
     (hasArrival v \<or> is_stop_of (Trip.TripID trip) arr x)"
  "arrivalTime (scan_step trip dep arr v x) =
     (if is_stop_of (Trip.TripID trip) arr x then AdjustTime (StopTime.ArrivalTime x)
      else arrivalTime v)"
  by (auto simp: scan_step_def is_stop_of_def Let_def)

lemma scan_step_departure:
  "hasDeparture (scan_step trip dep arr v x) =
     (hasDeparture v \<or> is_stop_of (Trip.TripID trip) dep x)"
  "departureTime (scan_step trip dep arr v x) =
     (if is_stop_of (Trip.TripID trip) dep x then AdjustTime (StopTime.DepartureTime x)
      else departureTime v)"
  by (auto simp: scan_step_def is_stop_of_def Let_def)

lemmas scan_step_simps = scan_step_arrival scan_step_departure

lemma scan_hasArrival_found:
  "hasArrival (scan_stopTimes trip dep arr v xs) \<Longrightarrow> \<not> hasArrival v \<Longrightarrow>
   \<exists>s \<in> set xs. is_stop_of (Trip.TripID trip) arr s"
proof (induction xs arbitrary: v)
  case Nil
  then show ?case by simp
next
  case (Cons x xs)
  show ?case
  proof (cases "is_stop_of (Trip.TripID trip) arr x")
    case True
    then show ?thesis by simp
  next
    case False
    with Cons.prems have "hasArrival (scan_stopTimes trip dep arr (scan_step trip dep arr v x) xs)"
      and "\<not> hasArrival (scan_step trip dep arr v x)"
      by (auto simp: Let_def scan_step_simps)
    with Cons.IH show ?thesis by auto
  qed
qed

lemma scan_hasDeparture_found:
  "hasDeparture (scan_stopTimes trip dep arr v xs) \<Longrightarrow> \<not> hasDeparture v \<Longrightarrow>
   \<exists>s \<in> set xs. is_stop_of (Trip.TripID trip) dep s"
proof (induction xs arbitrary: v)
  case Nil
  then show ?case by simp
next
  case (Cons x xs)
  show ?case
  proof (cases "is_stop_of (Trip.TripID trip) dep x")
    case True
    then show ?thesis by simp
  next
    case False
    with Cons.prems have "hasDeparture (scan_stopTimes trip dep arr (scan_step trip dep arr v x) xs)"
      and "\<not> hasDeparture (scan_step trip dep arr v x)"
      by (auto simp: Let_def scan_step_simps)
    with Cons.IH show ?thesis by auto
  qed
qed

lemma find_over_append:
  "find P (xs @ ys) = (case find P xs of Some x \<Rightarrow> Some x | None \<Rightarrow> find P ys)"
  by (induction xs) auto

lemma last_match_Cons:
  "last_match tid sid (x # xs) =
     (case last_match tid sid xs of
        Some d \<Rightarrow> Some d
      | None \<Rightarrow> if is_stop_of tid sid x then Some x else None)"
  by (simp add: last_match_def find_over_append split: option.splits)

lemma scan_result:
  assumes "dep \<noteq> arr"
    and "\<not> hasArrival v"
    and "\<exists>s \<in> set xs. is_stop_of (Trip.TripID trip) arr s"
    and "hasDeparture v \<or> (\<exists>s \<in> set (rows_before (Trip.TripID trip) arr xs).
                                 is_stop_of (Trip.TripID trip) dep s)"
  shows "arrivalTime (scan_stopTimes trip dep arr v xs) =
           (case first_match (Trip.TripID trip) arr xs of
              Some a \<Rightarrow> AdjustTime (StopTime.ArrivalTime a)
            | None \<Rightarrow> arrivalTime v)
         \<and> departureTime (scan_stopTimes trip dep arr v xs) =
           (case last_match (Trip.TripID trip) dep (rows_before (Trip.TripID trip) arr xs) of
              Some d \<Rightarrow> AdjustTime (StopTime.DepartureTime d)
            | None \<Rightarrow> departureTime v)"
  using assms
proof (induction xs arbitrary: v)
  case Nil
  then show ?case by simp
next
  case (Cons x xs)
  let ?tid = "Trip.TripID trip"
  let ?v' = "scan_step trip dep arr v x"
  show ?case
  proof (cases "is_stop_of ?tid arr x")
    case True
    with Cons.prems(1) have nd: "\<not> is_stop_of ?tid dep x"
      by (auto simp: is_stop_of_def)
    from True have rb: "rows_before ?tid arr (x # xs) = []"
      by (simp add: rows_before_def)
    with Cons.prems(4) have "hasDeparture v" by simp
    with True nd have "hasDeparture ?v' \<and> hasArrival ?v'"
      by (simp add: scan_step_simps)
    then have "scan_stopTimes trip dep arr v (x # xs) = ?v'"
      by (simp add: Let_def)
    with True nd rb show ?thesis
      by (simp add: scan_step_simps first_match_def last_match_def)
  next
    case False
    with Cons.prems(2) have na: "\<not> hasArrival ?v'"
      by (simp add: scan_step_simps)
    then have step: "scan_stopTimes trip dep arr v (x # xs) = scan_stopTimes trip dep arr ?v' xs"
      by (simp add: Let_def)
    from False have rb: "rows_before ?tid arr (x # xs) = x # rows_before ?tid arr xs"
      by (simp add: rows_before_def)
    from False Cons.prems(3) have ex: "\<exists>s \<in> set xs. is_stop_of ?tid arr s"
      by auto
    from Cons.prems(4) rb
    have hd: "hasDeparture ?v' \<or> (\<exists>s \<in> set (rows_before ?tid arr xs). is_stop_of ?tid dep s)"
      by (auto simp: scan_step_simps)
    note IH = Cons.IH [OF Cons.prems(1) na ex hd]
    from IH False step rb show ?thesis
      by (auto simp: first_match_def last_match_Cons scan_step_simps split: option.splits)
  qed
qed

lemma trains_loop_elems:
  "info \<in> set (trains_loop d cals sts dep arr acc trips) \<Longrightarrow>
   info \<in> set acc \<or>
   (\<exists>trip \<in> set trips.
      isValidTrip trip d cals
      \<and> hasDeparture (scan_stopTimes trip dep arr scan_start sts)
      \<and> hasArrival (scan_stopTimes trip dep arr scan_start sts)
      \<and> departureTime (scan_stopTimes trip dep arr scan_start sts) \<noteq> ''''
      \<and> arrivalTime (scan_stopTimes trip dep arr scan_start sts) \<noteq> ''''
      \<and> findStopIndex (Trip.TripID trip) dep sts < findStopIndex (Trip.TripID trip) arr sts
      \<and> info = \<lparr>TrainInfo.TripID = Trip.TripID trip,
                  DepartureTime = departureTime (scan_stopTimes trip dep arr scan_start sts),
                  ArrivalTime = arrivalTime (scan_stopTimes trip dep arr scan_start sts)\<rparr>)"
proof (induction trips arbitrary: acc)
  case Nil
  then show ?case by simp
next
  case (Cons trip trips)
  let ?v = "scan_stopTimes trip dep arr scan_start sts"
  let ?ok = "isValidTrip trip d cals \<and> hasDeparture ?v \<and> hasArrival ?v
             \<and> departureTime ?v \<noteq> '''' \<and> arrivalTime ?v \<noteq> ''''
             \<and> findStopIndex (Trip.TripID trip) dep sts < findStopIndex (Trip.TripID trip) arr sts"
  show ?case
  proof (cases ?ok)
    case True
    with Cons.prems
    have "info \<in> set (trains_loop d cals sts dep arr
             (acc @ [\<lparr>TrainInfo.TripID = Trip.TripID trip, DepartureTime = departureTime ?v,
                      ArrivalTime = arrivalTime ?v\<rparr>]) trips)"
      by (simp add: Let_def)
    from Cons.IH [OF this] True show ?thesis by auto
  next
    case False
    with Cons.prems have "info \<in> set (trains_loop d cals sts dep arr acc trips)"
      by (auto simp: Let_def split: if_splits)
    from Cons.IH [OF this] show ?thesis by auto
  qed
qed

subsection \<open>The values of \<^verbatim>\<open>Atoi\<close> and the loader of the stop times\<close>

lemma Atoi_fast_cases:
  "Atoi_fast s = (0, Some ErrSyntax) \<or> (\<exists>n. Atoi_fast s = (n, None))"
  by (simp add: Atoi_fast_def Let_def split: option.splits)

lemma ParseInt_cases:
  "ParseInt s = (0, Some ErrSyntax)
   \<or> ParseInt s = (2 ^ 63 - 1, Some ErrRange)
   \<or> ParseInt s = (- (2 ^ 63), Some ErrRange)
   \<or> (\<exists>n. ParseInt s = (n, None))"
proof (cases "s = []")
  case True
  then show ?thesis by (simp add: ParseInt_def)
next
  case False
  obtain un e where u: "ParseUint (if hd s = CHR ''+'' \<or> hd s = CHR ''-'' then tl s else s) = (un, e)"
    by (cases "ParseUint (if hd s = CHR ''+'' \<or> hd s = CHR ''-'' then tl s else s)")
  show ?thesis
  proof (cases "e = Some ErrSyntax")
    case True
    with False u show ?thesis by (simp add: ParseInt_def Let_def)
  next
    case ne: False
    then have "(case e of Some ErrSyntax \<Rightarrow> (a::int \<times> num_error option) | _ \<Rightarrow> b) = b" for a b
      by (cases e) (auto split: num_error.splits)
    with False u show ?thesis
      by (simp add: ParseInt_def Let_def del: power_numeral)
  qed
qed

lemma Atoi_cases:
  "Atoi s = (0, Some ErrSyntax)
   \<or> Atoi s = (2 ^ 63 - 1, Some ErrRange)
   \<or> Atoi s = (- (2 ^ 63), Some ErrRange)
   \<or> (\<exists>n. Atoi s = (n, None))"
proof (cases "0 < length s \<and> length s < 19")
  case True
  then have "Atoi s = Atoi_fast s" by (simp add: Atoi_def)
  with Atoi_fast_cases [of s] show ?thesis by metis
next
  case False
  then have "Atoi s = ParseInt s" by (auto simp: Atoi_def)
  with ParseInt_cases [of s] show ?thesis by metis
qed

lemma Atoi_error_value:
  "Atoi s = (v, Some ErrSyntax) \<Longrightarrow> v = 0"
  "Atoi s = (v, Some ErrRange) \<Longrightarrow> v = 2 ^ 63 - 1 \<or> v = - (2 ^ 63)"
  using Atoi_cases [of s] by auto

lemma stopTimes_loop_eq:
  "\<forall>record \<in> set rows. 5 \<le> length record \<Longrightarrow>
   stopTimes_loop acc rows = Inr (acc @ map stopTime_of_record rows)"
  by (induction rows arbitrary: acc) auto

lemma odd_sequence_values:
  "Atoi ''first'' = (0, Some ErrSyntax)"
  "Atoi ''99999999999999999999'' = (9223372036854775807, Some ErrRange)"
  by (simp_all add: Atoi_def Atoi_fast_def ParseInt_def ParseUint_def maxUint64_def
        isDigit_def digit_of_def)

subsection \<open>Trips that the search accepts\<close>

lemma handleGetTrainList_trains:
  assumes "handleGetTrainList order ds as date files = Inr response"
    and "loadStops (stops_txt files) = Inr stops"
    and "loadStopTimes (stop_times_txt files) = Inr stopTimes"
    and "resolve_ids ds as ('''', '''') (order stops) = (dep, arr)"
  shows "\<exists>d trips cals. Trains response = trains_loop d cals stopTimes dep arr [] trips"
  using assms
  by (auto simp: handleGetTrainList_def Let_def split: option.splits sum.splits if_splits)
    blast

lemma scan_start_flags: "\<not> hasDeparture scan_start" "\<not> hasArrival scan_start"
  by (simp_all add: scan_start_def)

lemma last_match_exists:
  "\<exists>s \<in> set xs. is_stop_of tid sid s \<Longrightarrow> \<exists>d. last_match tid sid xs = Some d"
  by (cases "last_match tid sid xs") (auto simp: last_match_def find_None_iff)

lemma accepted_trip_positions:
  assumes hd: "hasDeparture (scan_stopTimes trip dep arr scan_start sts)"
    and lt: "findStopIndex (Trip.TripID trip) dep sts < findStopIndex (Trip.TripID trip) arr sts"
  shows "\<exists>s \<in> set sts. is_stop_of (Trip.TripID trip) dep s"
    and "\<exists>s \<in> set sts. is_stop_of (Trip.TripID trip) arr s"
    and "findStopIndex (Trip.TripID trip) dep sts = int (length (rows_before (Trip.TripID trip) dep sts))"
    and "findStopIndex (Trip.TripID trip) arr sts = int (length (rows_before (Trip.TripID trip) arr sts))"
    and "dep \<noteq> arr"
    and "\<exists>s \<in> set (rows_before (Trip.TripID trip) arr sts). is_stop_of (Trip.TripID trip) dep s"
proof -
  let ?tid = "Trip.TripID trip"
  let ?kd = "length (rows_before ?tid dep sts)"
  let ?ka = "length (rows_before ?tid arr sts)"
  from hd scan_start_flags(1) show d: "\<exists>s \<in> set sts. is_stop_of ?tid dep s"
    by (rule scan_hasDeparture_found)
  then show fd: "findStopIndex ?tid dep sts = int ?kd"
    by (simp add: findStopIndex_eq)
  with lt have "0 \<le> findStopIndex ?tid arr sts" by simp
  then show a: "\<exists>s \<in> set sts. is_stop_of ?tid arr s"
    by (simp add: findStopIndex_eq split: if_splits)
  then show fa: "findStopIndex ?tid arr sts = int ?ka"
    by (simp add: findStopIndex_eq)
  from lt show "dep \<noteq> arr" by auto
  from lt fd fa have k: "?kd < ?ka" by simp
  from a have "?ka < length sts" and tk: "rows_before ?tid arr sts = take ?ka sts"
    by (rule rows_before_first)+
  with k have "sts ! ?kd \<in> set (take ?ka sts)"
    by (metis in_set_conv_nth length_take min.absorb2 nth_take order.strict_implies_order)
  moreover from d have "is_stop_of ?tid dep (sts ! ?kd)"
    by (rule rows_before_first)
  ultimately show "\<exists>s \<in> set (rows_before ?tid arr sts). is_stop_of ?tid dep s"
    using tk by metis
qed

subsection \<open>The example tables, loaded\<close>

lemma feeds_stops:
  "loadStops (stops_txt small_feed) = Inr two_stops"
  "loadStops (stops_txt doubled_trip_feed) = Inr two_stops"
  "loadStops (stops_txt no_stop_times_feed) = Inr two_stops"
  "loadStops (stops_txt loop_feed) = Inr two_stops"
  by (simp_all add: doubled_trip_feed_def no_stop_times_feed_def loop_feed_def
        small_feed_def loadStops_def stops_records_def two_stops_def)

lemma feeds_stop_times:
  "loadStopTimes (stop_times_txt small_feed) = Inr small_stop_times"
  "loadStopTimes (stop_times_txt doubled_trip_feed) = Inr small_stop_times"
  "loadStopTimes (stop_times_txt loop_feed) = Inr loop_stop_times"
  "loadStopTimes (stop_times_txt no_stop_times_feed) =
     Inr [\<lparr>StopTime.TripID = ''6'', StopID = ''A'', ArrivalTime = ''09:00:00'',
           DepartureTime = ''09:01:00'', StopSequence = 1\<rparr>]"
  by code_simp+

lemma feeds_trips:
  "loadTrips (trips_txt small_feed) = Inr [trip_5]"
  "loadTrips (trips_txt doubled_trip_feed) = Inr [trip_5, trip_5]"
  "loadTrips (trips_txt no_stop_times_feed) = Inr [trip_5]"
  by code_simp+

lemma feeds_calendar:
  "loadCalendar (calendar_txt small_feed) = Inr [weekday_calendar]"
  "loadCalendar (calendar_txt doubled_trip_feed) = Inr [weekday_calendar]"
  "loadCalendar (calendar_txt no_stop_times_feed) = Inr [weekday_calendar]"
  by code_simp+

lemma tuesday_valid:
  "Parse_2006_01_02 ''2024-06-11'' = Some (civil 2024 6 11)"
  "isValidTrip trip_5 (civil 2024 6 11) [weekday_calendar]"
  by code_simp+

lemma saturday_invalid:
  "Parse_2006_01_02 ''2024-06-15'' = Some (civil 2024 6 15)"
  "\<not> isValidTrip trip_5 (civil 2024 6 15) [weekday_calendar]"
  by code_simp+

lemma loop_feed_search:
  "handleGetTrainList a_then_b ''Central'' ''North'' ''2024-06-11'' loop_feed =
     Inr \<lparr>DepartureStation = ''Central'', ArrivalStation = ''North'',
          TrainListResponse.Date = ''2024-06-11'',
          Trains = [\<lparr>TrainInfo.TripID = ''5'', DepartureTime = ''09:00:00'',
                     ArrivalTime = ''10:00:00''\<rparr>]\<rparr>"
  "resolve_ids ''Central'' ''North'' ('''', '''') (a_then_b two_stops) = (''A'', ''B'')"
  by code_simp+

section \<open>The time normalizer: claims C6 and C9\<close>

text \<open>
  Claim C6, as stated: whenever the input has three parts and the hour parses, the hour
  comes back zero-padded to two digits. It fails for a negative hour: \<^verbatim>\<open>Atoi\<close> reads
  \<open>-05\<close> as \<open>-5\<close>, and \<^verbatim>\<open>%02d\<close> writes \<open>-5\<close>, whose sign fills the width, so
  \<open>-05:10:00\<close> gives \<open>-5:10:00\<close>, which is neither the input nor an hour of two digits.
\<close>

theorem AdjustTime_negative_hour_counterexample:
  "Split_colon ''-05:10:00'' = [''-05'', ''10'', ''00'']
   \<and> Atoi ''-05'' = (- 5, None)
   \<and> AdjustTime ''-05:10:00'' = ''-5:10:00''"
  by code_simp

text \<open>
  Claim C6, amended. \<^verbatim>\<open>AdjustTime\<close> returns its input unchanged when splitting it at the
  colons does not give three parts, and when the first part is refused by \<^verbatim>\<open>Atoi\<close>.
  Otherwise, with the hour \<open>n\<close> that \<^verbatim>\<open>Atoi\<close> read, it returns the hour \<open>n - 24\<close> when
  \<open>24 \<le> n\<close> and \<open>n\<close> when not, written by \<^verbatim>\<open>%02d\<close>, followed by the second and the third
  part as they were. What \<^verbatim>\<open>%02d\<close> writes is exactly two digits, padded with a zero, for
  an hour from 0 to 99; a minus sign followed by the digits of the hour, with no padding,
  for a negative hour; and all the digits, three or more, for an hour of 100 or more. It
  is a total function from strings to strings, and \<open>25:10:00\<close> gives \<open>01:10:00\<close>,
  \<open>09:05:00\<close> gives itself and \<open>bad\<close> gives itself.
\<close>

theorem AdjustTime_normalizes:
  "(length (Split_colon t) \<noteq> 3 \<longrightarrow> AdjustTime t = t)
   \<and> (Atoi (Split_colon t ! 0) = (n, Some e) \<longrightarrow> AdjustTime t = t)
   \<and> (Split_colon t = [h, m, s] \<and> Atoi h = (n, None) \<longrightarrow>
        AdjustTime t = Sprintf_02d (if 24 \<le> n then n - 24 else n) @ '':'' @ m @ '':'' @ s)
   \<and> (0 \<le> k \<and> k < 100 \<longrightarrow>
        Sprintf_02d k = [digit_char (nat k div 10), digit_char (nat k mod 10)])
   \<and> (k < 0 \<longrightarrow> Sprintf_02d k = CHR ''-'' # decimal (nat (- k)))
   \<and> (100 \<le> k \<longrightarrow> Sprintf_02d k = decimal (nat k) \<and> 3 \<le> length (decimal (nat k)))
   \<and> AdjustTime ''25:10:00'' = ''01:10:00''
   \<and> AdjustTime ''09:05:00'' = ''09:05:00''
   \<and> AdjustTime ''bad'' = ''bad''"
proof -
  have "AdjustTime ''25:10:00'' = ''01:10:00''" by code_simp
  moreover have "AdjustTime ''09:05:00'' = ''09:05:00''" by code_simp
  moreover have "AdjustTime ''bad'' = ''bad''" by code_simp
  moreover have "Sprintf_02d k = CHR ''-'' # decimal (nat (- k))" if "k < 0"
    using that by (simp add: Sprintf_02d_def)
  moreover have "Sprintf_02d k = decimal (nat k) \<and> 3 \<le> length (decimal (nat k))"
    if "100 \<le> k"
    using that decimal_three_digits [of "nat k"] by (simp add: Sprintf_02d_def)
  ultimately show ?thesis
    using AdjustTime_shape [of t] AdjustTime_hour_error [of t n e]
      AdjustTime_parts [of t h m s n] Sprintf_02d_two_digits [of k]
    by blast
qed

text \<open>
  The amended C6 on an input of two parts, on an hour that is not a number, and on hours
  of each range: 6 and 7, written with two digits, -5 and 100.
\<close>

theorem AdjustTime_normalizes_witness:
  "AdjustTime ''08:15'' = ''08:15''
   \<and> AdjustTime ''ab:10:00'' = ''ab:10:00''
   \<and> AdjustTime ''30:59:07'' = ''06:59:07''
   \<and> AdjustTime ''7:59:07'' = ''07:59:07''
   \<and> AdjustTime ''-05:10:00'' = ''-5:10:00''
   \<and> AdjustTime ''124:10:00'' = ''100:10:00''"
proof -
  have 1: "length (Split_colon ''08:15'') \<noteq> 3" by code_simp
  have 2: "Atoi (Split_colon ''ab:10:00'' ! 0) = (0, Some ErrSyntax)" by code_simp
  have 3: "Split_colon ''30:59:07'' = [''30'', ''59'', ''07''] \<and> Atoi ''30'' = (30, None)"
    by code_simp
  have 4: "Split_colon ''7:59:07'' = [''7'', ''59'', ''07''] \<and> Atoi ''7'' = (7, None)"
    by code_simp
  have 5: "[digit_char (nat 6 div 10), digit_char (nat 6 mod 10)] = ''06''" by code_simp
  have 6: "[digit_char (nat 7 div 10), digit_char (nat 7 mod 10)] = ''07''" by code_simp
  have 7: "Split_colon ''-05:10:00'' = [''-05'', ''10'', ''00''] \<and> Atoi ''-05'' = (- 5, None)"
    by code_simp
  have 8: "CHR ''-'' # decimal (nat (- (- 5))) = ''-5''" by code_simp
  have 9: "Split_colon ''124:10:00'' = [''124'', ''10'', ''00''] \<and> Atoi ''124'' = (124, None)"
    by code_simp
  have 10: "decimal (nat 100) = ''100''" by code_simp
  from 1 have a: "AdjustTime ''08:15'' = ''08:15''"
    using AdjustTime_normalizes [of "''08:15''"] by blast
  from 2 have b: "AdjustTime ''ab:10:00'' = ''ab:10:00''"
    using AdjustTime_normalizes [of "''ab:10:00''" 0 ErrSyntax] by blast
  from 3 5 have c: "AdjustTime ''30:59:07'' = ''06:59:07''"
    using AdjustTime_normalizes [of "''30:59:07''" 30 _ "''30''" "''59''" "''07''" 6] by simp
  from 4 6 have d: "AdjustTime ''7:59:07'' = ''07:59:07''"
    using AdjustTime_normalizes [of "''7:59:07''" 7 _ "''7''" "''59''" "''07''" 7] by simp
  from 7 8 have e: "AdjustTime ''-05:10:00'' = ''-5:10:00''"
    using AdjustTime_normalizes [of "''-05:10:00''" "- 5" _ "''-05''" "''10''" "''00''" "- 5"]
    by simp
  from 9 10 have f: "AdjustTime ''124:10:00'' = ''100:10:00''"
    using AdjustTime_normalizes [of "''124:10:00''" 124 _ "''124''" "''10''" "''00''" 100]
    by simp
  from a b c d e f show ?thesis by blast
qed

text \<open>
  Claim C9. For an input of three parts whose hour \<open>H\<close> is read by \<^verbatim>\<open>Atoi\<close> and is at
  least 48, \<^verbatim>\<open>AdjustTime\<close> subtracts 24 once: the hour of the output is the decimal
  writing of \<open>H - 24\<close>, which is at least 24, so the output is not a time of a 24-hour
  clock. \<open>48:10:00\<close> gives \<open>24:10:00\<close> and \<open>49:10:00\<close> gives \<open>25:10:00\<close>.
\<close>

theorem AdjustTime_subtracts_24_once:
  "(Split_colon t = [h, m, s] \<and> Atoi h = (H, None) \<and> 48 \<le> H \<longrightarrow>
      AdjustTime t = decimal (nat (H - 24)) @ '':'' @ m @ '':'' @ s
      \<and> Split_colon (AdjustTime t) = [decimal (nat (H - 24)), m, s]
      \<and> fast_digits 0 (decimal (nat (H - 24))) = Some (nat (H - 24))
      \<and> 24 \<le> H - 24)
   \<and> AdjustTime ''48:10:00'' = ''24:10:00''
   \<and> AdjustTime ''49:10:00'' = ''25:10:00''"
proof -
  have ex: "AdjustTime ''48:10:00'' = ''24:10:00''" "AdjustTime ''49:10:00'' = ''25:10:00''"
    by code_simp+
  have "AdjustTime t = decimal (nat (H - 24)) @ '':'' @ m @ '':'' @ s
      \<and> Split_colon (AdjustTime t) = [decimal (nat (H - 24)), m, s]
      \<and> fast_digits 0 (decimal (nat (H - 24))) = Some (nat (H - 24))
      \<and> 24 \<le> H - 24"
    if a: "Split_colon t = [h, m, s]" "Atoi h = (H, None)" "48 \<le> H"
  proof -
    from a have eq: "AdjustTime t = decimal (nat (H - 24)) @ '':'' @ m @ '':'' @ s"
      by (simp add: AdjustTime_parts Sprintf_02d_def)
    from a(1) have "m \<in> set (Split_colon t)" "s \<in> set (Split_colon t)" by simp_all
    then have "CHR '':'' \<notin> set m" "CHR '':'' \<notin> set s"
      by (auto dest: Split_colon_parts)
    then have "Split_colon (decimal (nat (H - 24)) @ '':'' @ m @ '':'' @ s)
               = [decimal (nat (H - 24)), m, s]"
      by (intro Split_colon_rebuilt decimal_no_colon)
    with eq a(3) show ?thesis
      by (simp add: fast_digits_decimal)
  qed
  with ex show ?thesis by blast
qed

text \<open>C9 at the input \<open>72:00:30\<close>.\<close>

theorem AdjustTime_subtracts_24_once_witness:
  "AdjustTime ''72:00:30'' = decimal 48 @ '':'' @ ''00'' @ '':'' @ ''30''
   \<and> Split_colon (AdjustTime ''72:00:30'') = [decimal 48, ''00'', ''30'']
   \<and> fast_digits 0 (decimal 48) = Some 48"
proof -
  have h: "Split_colon ''72:00:30'' = [''72'', ''00'', ''30''] \<and> Atoi ''72'' = (72, None)
        \<and> (48::int) \<le> 72"
    by code_simp
  have n: "nat (72 - 24) = 48" by simp
  from h AdjustTime_subtracts_24_once [of "''72:00:30''" "''72''" "''00''" "''30''" 72]
  have "AdjustTime ''72:00:30'' = decimal (nat (72 - 24)) @ '':'' @ ''00'' @ '':'' @ ''30''
   \<and> Split_colon (AdjustTime ''72:00:30'') = [decimal (nat (72 - 24)), ''00'', ''30'']
   \<and> fast_digits 0 (decimal (nat (72 - 24))) = Some (nat (72 - 24))"
    by blast
  then show ?thesis unfolding n .
qed

section \<open>The calendar validity evaluator: claims C1 and C2\<close>

text \<open>
  Claim C1. \<^verbatim>\<open>isValidTrip\<close> is true if and only if some calendar entry with the service id of
  the trip has the date between its start date and its end date, bounds included, and has
  its flags, indexed from Monday at 0 to Sunday at 6, set at the weekday of the date.

  The code reads the flags at the integer value of \<^verbatim>\<open>date.Weekday()\<close>, which counts from
  Sunday at 0, while \<^verbatim>\<open>loadCalendar\<close> stores the flag of Monday at index 0. For a service
  that runs from Monday to Friday the code therefore accepts Sunday 2024-06-09, where it
  reads the flag of Monday, and refuses Friday 2024-06-14, where it reads the flag of
  Saturday. The statement evaluates the code and the specification on both dates.
\<close>

theorem isValidTrip_reads_flags_from_sunday:
  "Weekday (civil 2024 6 9) = Sunday
   \<and> isValidTrip trip_101 (civil 2024 6 9) [weekday_calendar]
   \<and> \<not> spec_isValidTrip trip_101 (civil 2024 6 9) [weekday_calendar]
   \<and> Weekday (civil 2024 6 14) = Friday
   \<and> \<not> isValidTrip trip_101 (civil 2024 6 14) [weekday_calendar]
   \<and> spec_isValidTrip trip_101 (civil 2024 6 14) [weekday_calendar]"
  by code_simp

text \<open>
  Claim C2, as stated: a calendar entry whose start date or end date does not parse never
  makes \<^verbatim>\<open>isValidTrip\<close> true. It fails for an entry whose start date alone does not
  parse: the entry below makes the trip valid on 2024-06-11, and without it the trip is
  not valid.
\<close>

theorem unparsable_start_date_counterexample:
  "Parse_20060102 (StartDate dashed_start_calendar) = None
   \<and> isValidTrip trip_101 (civil 2024 6 11) [dashed_start_calendar]
   \<and> \<not> isValidTrip trip_101 (civil 2024 6 11) []"
  by code_simp

text \<open>
  Claim C2, amended. A date that does not parse is read as the zero time, 0001-01-01, and
  is never an error. So an entry whose end date does not parse authorizes no date after
  0001-01-01: with or without the entry, anywhere in the list, the result is the same. An
  entry whose start date does not parse is evaluated as if its start date were 0001-01-01.
\<close>

theorem unparsable_dates_read_as_zero_time:
  "(Parse_20060102 (EndDate cal) = None \<and> zeroTime < date \<longrightarrow>
      isValidTrip trip date (before @ cal # after) = isValidTrip trip date (before @ after))
   \<and> (Parse_20060102 (StartDate cal) = None \<longrightarrow>
      isValidTrip trip date (before @ cal # after)
        = isValidTrip trip date (before @ cal\<lparr>StartDate := ''00010101''\<rparr> # after))"
  using unparsable_end_never [of cal date trip] unparsable_start_zero [of cal trip date]
  by (auto simp: isValidTrip_iff)

text \<open>The amended C2 on an entry with a dashed end date and one with a dashed start date.\<close>

theorem unparsable_dates_read_as_zero_time_witness:
  "isValidTrip trip_101 (civil 2024 6 11) [dashed_end_calendar, weekday_calendar]
     = isValidTrip trip_101 (civil 2024 6 11) [weekday_calendar]
   \<and> isValidTrip trip_101 (civil 2024 6 11) [dashed_start_calendar]
     = isValidTrip trip_101 (civil 2024 6 11)
         [dashed_start_calendar\<lparr>StartDate := ''00010101''\<rparr>]"
proof -
  have 1: "Parse_20060102 (EndDate dashed_end_calendar) = None \<and> zeroTime < civil 2024 6 11"
    by code_simp
  have 2: "Parse_20060102 (StartDate dashed_start_calendar) = None"
    by code_simp
  from 1 unparsable_dates_read_as_zero_time
         [of dashed_end_calendar "civil 2024 6 11" trip_101 "[]" "[weekday_calendar]"]
  have a: "isValidTrip trip_101 (civil 2024 6 11) ([] @ dashed_end_calendar # [weekday_calendar])
     = isValidTrip trip_101 (civil 2024 6 11) ([] @ [weekday_calendar])"
    by blast
  from 2 unparsable_dates_read_as_zero_time
         [of dashed_start_calendar "civil 2024 6 11" trip_101 "[]" "[]"]
  have b: "isValidTrip trip_101 (civil 2024 6 11) ([] @ dashed_start_calendar # [])
     = isValidTrip trip_101 (civil 2024 6 11)
         ([] @ dashed_start_calendar\<lparr>StartDate := ''00010101''\<rparr> # [])"
    by blast
  from a b show ?thesis by (simp only: append_Nil)
qed

section \<open>The itinerary builder: claims C5, C7 and C10\<close>

text \<open>
  Claim C5, as stated: when the trip id matches a trip valid on the date, the stop list is
  exactly the stop times of that trip id, in the order of the table, each with the name
  of its stop and both times normalized. It fails on a feed whose \<^verbatim>\<open>trips.txt\<close> has the
  row of the trip twice and whose stop times leave a time empty: the stop list has every
  stop twice, and \<open>N/A\<close> where the normalized time is empty.
\<close>

theorem GetTrainInfo_repeats_itinerary_counterexample:
  "handleGetTrainInfo ''5'' ''2024-06-11'' doubled_trip_feed =
     Inr \<lparr>TrainNumber = ''5'', TrainInfoResponse.Date = ''2024-06-11'',
          Stops =
            [\<lparr>TrainStop.StopName = ''Central'', ArrivalTime = ''N/A'', DepartureTime = ''08:00:00''\<rparr>,
             \<lparr>TrainStop.StopName = ''North'', ArrivalTime = ''08:30:00'', DepartureTime = ''N/A''\<rparr>,
             \<lparr>TrainStop.StopName = ''Central'', ArrivalTime = ''N/A'', DepartureTime = ''08:00:00''\<rparr>,
             \<lparr>TrainStop.StopName = ''North'', ArrivalTime = ''08:30:00'', DepartureTime = ''N/A''\<rparr>]\<rparr>
   \<and> spec_itinerary two_stops small_stop_times ''5'' =
       [\<lparr>TrainStop.StopName = ''Central'', ArrivalTime = '''', DepartureTime = ''08:00:00''\<rparr>,
        \<lparr>TrainStop.StopName = ''North'', ArrivalTime = ''08:30:00'', DepartureTime = ''''\<rparr>]"
  by code_simp

text \<open>
  Claim C5, amended. When the date parses, the four tables load and the trip id matches
  at least one trip valid on the date, the stop list is the sequence of the stop times
  whose trip id is the requested one, in the order of the table and not sorted by
  \<^verbatim>\<open>stop_sequence\<close>, each with the name of its stop and both times normalized, an empty
  normalized time replaced by \<open>N/A\<close>; that sequence is repeated once for every row of the
  trips table that carries the trip id and is valid on the date.
\<close>

theorem GetTrainInfo_stop_list:
  assumes "Parse_2006_01_02 date = Some parsedDate"
    and "loadStops (stops_txt files) = Inr stops"
    and "loadStopTimes (stop_times_txt files) = Inr stopTimes"
    and "loadTrips (trips_txt files) = Inr trips"
    and "loadCalendar (calendar_txt files) = Inr calendars"
    and "\<exists>trip \<in> set trips.
           Trip.TripID trip = trainNumber \<and> isValidTrip trip parsedDate calendars"
    and "k = length (filter (\<lambda>trip. Trip.TripID trip = trainNumber
                                   \<and> isValidTrip trip parsedDate calendars) trips)"
  shows "1 \<le> k
    \<and> handleGetTrainInfo trainNumber date files =
        Inr \<lparr>TrainNumber = trainNumber, TrainInfoResponse.Date = date,
             Stops = concat (replicate k
               (map (trainStop stops)
                    (filter (\<lambda>stopTime. StopTime.TripID stopTime = trainNumber) stopTimes)))\<rparr>"
proof -
  let ?m = "filter (\<lambda>trip. Trip.TripID trip = trainNumber
                        \<and> isValidTrip trip parsedDate calendars) trips"
  from assms(6) have ne: "?m \<noteq> []"
    by (auto simp: filter_empty_conv)
  then have "1 \<le> length ?m"
    by (cases ?m) simp_all
  with ne assms(7) handleGetTrainInfo_loaded [OF assms(1-5), of trainNumber]
  show ?thesis by simp
qed

text \<open>The amended C5 on the feed with the doubled trip.\<close>

theorem GetTrainInfo_stop_list_witness:
  "handleGetTrainInfo ''5'' ''2024-06-11'' doubled_trip_feed =
     Inr \<lparr>TrainNumber = ''5'', TrainInfoResponse.Date = ''2024-06-11'',
          Stops = concat (replicate 2
            (map (trainStop two_stops)
               (filter (\<lambda>stopTime. StopTime.TripID stopTime = ''5'') small_stop_times)))\<rparr>"
proof -
  have ex: "\<exists>trip \<in> set [trip_5, trip_5].
              Trip.TripID trip = ''5'' \<and> isValidTrip trip (civil 2024 6 11) [weekday_calendar]"
    using tuesday_valid(2) by (simp add: trip_5_def del: isValidTrip.simps)
  have k: "2 = length (filter (\<lambda>trip. Trip.TripID trip = ''5''
              \<and> isValidTrip trip (civil 2024 6 11) [weekday_calendar]) [trip_5, trip_5])"
    using tuesday_valid(2) by (simp add: trip_5_def del: isValidTrip.simps)
  show ?thesis
    using GetTrainInfo_stop_list [OF tuesday_valid(1) feeds_stops(2)
        feeds_stop_times(2) feeds_trips(2) feeds_calendar(2) ex k]
    by blast
qed

text \<open>
  Claim C7. When the date parses and the four tables load, a trip id that no row of the
  trips table carries, or that only rows not valid on the date carry, makes
  \<^verbatim>\<open>handleGetTrainInfo\<close> fail with \<open>NotFound\<close>, and no stop list is produced.
\<close>

theorem GetTrainInfo_not_found:
  assumes "Parse_2006_01_02 date = Some parsedDate"
    and "loadStops (stops_txt files) = Inr stops"
    and "loadStopTimes (stop_times_txt files) = Inr stopTimes"
    and "loadTrips (trips_txt files) = Inr trips"
    and "loadCalendar (calendar_txt files) = Inr calendars"
    and "\<forall>trip \<in> set trips.
           Trip.TripID trip = trainNumber \<longrightarrow> \<not> isValidTrip trip parsedDate calendars"
  shows "handleGetTrainInfo trainNumber date files = Inl NotFound"
proof -
  from assms(6)
  have "filter (\<lambda>trip. Trip.TripID trip = trainNumber
                       \<and> isValidTrip trip parsedDate calendars) trips = []"
    by (auto simp: filter_empty_conv)
  with handleGetTrainInfo_loaded [OF assms(1-5), of trainNumber] show ?thesis
    by simp
qed

text \<open>C7 for a trip id that no trip has, and for a trip on a day its service does not run.\<close>

theorem GetTrainInfo_not_found_witness:
  "handleGetTrainInfo ''77'' ''2024-06-11'' small_feed = Inl NotFound
   \<and> handleGetTrainInfo ''5'' ''2024-06-15'' small_feed = Inl NotFound"
proof -
  have u: "\<forall>trip \<in> set [trip_5].
             Trip.TripID trip = ''77'' \<longrightarrow> \<not> isValidTrip trip (civil 2024 6 11) [weekday_calendar]"
    by (simp add: trip_5_def)
  have v: "\<forall>trip \<in> set [trip_5].
             Trip.TripID trip = ''5'' \<longrightarrow> \<not> isValidTrip trip (civil 2024 6 15) [weekday_calendar]"
    using saturday_invalid(2) by (simp del: isValidTrip.simps)
  show ?thesis
    using GetTrainInfo_not_found [OF tuesday_valid(1) feeds_stops(1) feeds_stop_times(1)
        feeds_trips(1) feeds_calendar(1) u]
      GetTrainInfo_not_found [OF saturday_invalid(1) feeds_stops(1) feeds_stop_times(1)
        feeds_trips(1) feeds_calendar(1) v]
    by blast
qed

text \<open>
  Claim C10. When the date parses and the four tables load, a trip id that matches a trip
  valid on the date and that no row of the stop-times table carries makes
  \<^verbatim>\<open>handleGetTrainInfo\<close> succeed with an empty stop list; and the answer is \<open>NotFound\<close>
  exactly when no row of the trips table carries the trip id and is valid on the date,
  whatever the stop-times table holds.
\<close>

theorem GetTrainInfo_without_stop_times:
  assumes "Parse_2006_01_02 date = Some parsedDate"
    and "loadStops (stops_txt files) = Inr stops"
    and "loadStopTimes (stop_times_txt files) = Inr stopTimes"
    and "loadTrips (trips_txt files) = Inr trips"
    and "loadCalendar (calendar_txt files) = Inr calendars"
  shows "((\<exists>trip \<in> set trips.
             Trip.TripID trip = trainNumber \<and> isValidTrip trip parsedDate calendars)
          \<and> (\<forall>stopTime \<in> set stopTimes. StopTime.TripID stopTime \<noteq> trainNumber)
          \<longrightarrow> handleGetTrainInfo trainNumber date files =
                Inr \<lparr>TrainNumber = trainNumber, TrainInfoResponse.Date = date, Stops = []\<rparr>)
    \<and> (handleGetTrainInfo trainNumber date files = Inl NotFound
          \<longleftrightarrow> \<not> (\<exists>trip \<in> set trips.
                    Trip.TripID trip = trainNumber \<and> isValidTrip trip parsedDate calendars))"
proof -
  let ?m = "filter (\<lambda>trip. Trip.TripID trip = trainNumber
                        \<and> isValidTrip trip parsedDate calendars) trips"
  have m: "?m = [] \<longleftrightarrow> \<not> (\<exists>trip \<in> set trips.
                    Trip.TripID trip = trainNumber \<and> isValidTrip trip parsedDate calendars)"
    by (auto simp: filter_empty_conv)
  have "filter (\<lambda>stopTime. StopTime.TripID stopTime = trainNumber) stopTimes = []"
    if "\<forall>stopTime \<in> set stopTimes. StopTime.TripID stopTime \<noteq> trainNumber"
    using that by (auto simp: filter_empty_conv)
  with m handleGetTrainInfo_loaded [OF assms(1-5), of trainNumber]
  show ?thesis by auto
qed

text \<open>C10 on the feed whose stop times belong to another trip.\<close>

theorem GetTrainInfo_without_stop_times_witness:
  "handleGetTrainInfo ''5'' ''2024-06-11'' no_stop_times_feed =
     Inr \<lparr>TrainNumber = ''5'', TrainInfoResponse.Date = ''2024-06-11'', Stops = []\<rparr>
   \<and> handleGetTrainInfo ''5'' ''2024-06-11'' no_stop_times_feed \<noteq> Inl NotFound"
proof -
  have ex: "\<exists>trip \<in> set [trip_5].
              Trip.TripID trip = ''5'' \<and> isValidTrip trip (civil 2024 6 11) [weekday_calendar]"
    using tuesday_valid(2) by (simp add: trip_5_def del: isValidTrip.simps)
  have none: "\<forall>stopTime \<in> set [\<lparr>StopTime.TripID = ''6'', StopID = ''A'',
                  ArrivalTime = ''09:00:00'', DepartureTime = ''09:01:00'', StopSequence = 1\<rparr>].
                StopTime.TripID stopTime \<noteq> ''5''"
    by simp
  show ?thesis
    using GetTrainInfo_without_stop_times [OF tuesday_valid(1) feeds_stops(3)
        feeds_stop_times(4) feeds_trips(3) feeds_calendar(3), of "''5''"] ex none
    by blast
qed

section \<open>The station-pair search: claims C3 and C4\<close>

text \<open>
  Claim C3. For every station-pair query that succeeds, every trip in the answer has its
  departure stop at a row of the stop-times table strictly before the row of its arrival
  stop, where the row of a stop is the index that \<^verbatim>\<open>findStopIndex\<close> returns: the first row
  of the table with the trip id and the stop id. Both indices are found, and no trip of
  the answer has its arrival index at or before its departure index.
\<close>

theorem GetTrainList_departure_before_arrival:
  assumes "handleGetTrainList order departureStation arrivalStation date files = Inr response"
    and "loadStops (stops_txt files) = Inr stops"
    and "loadStopTimes (stop_times_txt files) = Inr stopTimes"
    and "resolve_ids departureStation arrivalStation ('''', '''') (order stops)
           = (departureID, arrivalID)"
    and "info \<in> set (Trains response)"
  shows "0 \<le> findStopIndex (TrainInfo.TripID info) departureID stopTimes
    \<and> findStopIndex (TrainInfo.TripID info) departureID stopTimes
        < findStopIndex (TrainInfo.TripID info) arrivalID stopTimes
    \<and> nat (findStopIndex (TrainInfo.TripID info) arrivalID stopTimes) < length stopTimes
    \<and> first_match (TrainInfo.TripID info) departureID stopTimes
        = Some (stopTimes ! nat (findStopIndex (TrainInfo.TripID info) departureID stopTimes))
    \<and> first_match (TrainInfo.TripID info) arrivalID stopTimes
        = Some (stopTimes ! nat (findStopIndex (TrainInfo.TripID info) arrivalID stopTimes))"
proof -
  from handleGetTrainList_trains [OF assms(1-4)] obtain d trips cals
    where "Trains response = trains_loop d cals stopTimes departureID arrivalID [] trips"
    by blast
  with assms(5) trains_loop_elems [of info d cals stopTimes departureID arrivalID "[]" trips]
  obtain trip
    where hd: "hasDeparture (scan_stopTimes trip departureID arrivalID scan_start stopTimes)"
      and lt: "findStopIndex (Trip.TripID trip) departureID stopTimes
                < findStopIndex (Trip.TripID trip) arrivalID stopTimes"
      and id: "TrainInfo.TripID info = Trip.TripID trip"
    by auto
  note p = accepted_trip_positions [OF hd lt]
  from p(1) have "first_match (Trip.TripID trip) departureID stopTimes
      = Some (stopTimes ! length (rows_before (Trip.TripID trip) departureID stopTimes))"
    by (rule rows_before_first)
  moreover from p(2) have "first_match (Trip.TripID trip) arrivalID stopTimes
      = Some (stopTimes ! length (rows_before (Trip.TripID trip) arrivalID stopTimes))"
    and "length (rows_before (Trip.TripID trip) arrivalID stopTimes) < length stopTimes"
    by (rule rows_before_first)+
  ultimately show ?thesis
    using lt id p(3,4) by simp
qed

text \<open>C3 on the feed of the loop, whose answer holds trip 5.\<close>

theorem GetTrainList_departure_before_arrival_witness:
  "0 \<le> findStopIndex ''5'' ''A'' loop_stop_times
   \<and> findStopIndex ''5'' ''A'' loop_stop_times < findStopIndex ''5'' ''B'' loop_stop_times
   \<and> nat (findStopIndex ''5'' ''B'' loop_stop_times) < length loop_stop_times"
proof -
  let ?info = "\<lparr>TrainInfo.TripID = ''5'', DepartureTime = ''09:00:00'',
                ArrivalTime = ''10:00:00''\<rparr>"
  have "?info \<in> set (Trains \<lparr>DepartureStation = ''Central'', ArrivalStation = ''North'',
          TrainListResponse.Date = ''2024-06-11'', Trains = [?info]\<rparr>)"
    by simp
  from GetTrainList_departure_before_arrival
    [OF loop_feed_search(1) feeds_stops(4) feeds_stop_times(3) loop_feed_search(2) this]
  show ?thesis by simp
qed

text \<open>
  Claim C4, as stated: the departure time of a trip in the answer is the normalized
  departure time of the first stop time of the trip at the departure stop. It fails on
  the feed of the loop: the first row of trip 5 at Central leaves at 08:00:00, and the
  answer gives 09:00:00, the time of the second row.
\<close>

theorem GetTrainList_last_departure_counterexample:
  "loadStopTimes (stop_times_txt loop_feed) = Inr loop_stop_times
   \<and> handleGetTrainList a_then_b ''Central'' ''North'' ''2024-06-11'' loop_feed =
       Inr \<lparr>DepartureStation = ''Central'', ArrivalStation = ''North'',
            TrainListResponse.Date = ''2024-06-11'',
            Trains = [\<lparr>TrainInfo.TripID = ''5'', DepartureTime = ''09:00:00'',
                       ArrivalTime = ''10:00:00''\<rparr>]\<rparr>
   \<and> first_match ''5'' ''A'' loop_stop_times =
       Some \<lparr>StopTime.TripID = ''5'', StopID = ''A'', ArrivalTime = ''07:55:00'',
             DepartureTime = ''08:00:00'', StopSequence = 1\<rparr>
   \<and> AdjustTime ''08:00:00'' = ''08:00:00''"
proof -
  have "first_match ''5'' ''A'' loop_stop_times =
       Some \<lparr>StopTime.TripID = ''5'', StopID = ''A'', ArrivalTime = ''07:55:00'',
             DepartureTime = ''08:00:00'', StopSequence = 1\<rparr>"
    by code_simp
  moreover have "AdjustTime ''08:00:00'' = ''08:00:00''"
    by code_simp
  ultimately show ?thesis
    using feeds_stop_times(3) loop_feed_search(1) by blast
qed

text \<open>
  Claim C4, amended. For every trip in the answer, the arrival time is the normalized
  arrival time of the first stop time of the trip at the arrival stop, and the departure
  time is the normalized departure time of the last stop time of the trip at the
  departure stop among the rows that come before that first row at the arrival stop: each
  further row at the departure stop overwrites the time until the scan stops.
\<close>

theorem GetTrainList_reported_times:
  assumes "handleGetTrainList order departureStation arrivalStation date files = Inr response"
    and "loadStops (stops_txt files) = Inr stops"
    and "loadStopTimes (stop_times_txt files) = Inr stopTimes"
    and "resolve_ids departureStation arrivalStation ('''', '''') (order stops)
           = (departureID, arrivalID)"
    and "info \<in> set (Trains response)"
  shows "\<exists>a d.
      first_match (TrainInfo.TripID info) arrivalID stopTimes = Some a
      \<and> TrainInfo.ArrivalTime info = AdjustTime (StopTime.ArrivalTime a)
      \<and> last_match (TrainInfo.TripID info) departureID
           (rows_before (TrainInfo.TripID info) arrivalID stopTimes) = Some d
      \<and> TrainInfo.DepartureTime info = AdjustTime (StopTime.DepartureTime d)"
proof -
  from handleGetTrainList_trains [OF assms(1-4)] obtain pd trips cals
    where "Trains response = trains_loop pd cals stopTimes departureID arrivalID [] trips"
    by blast
  with assms(5) trains_loop_elems [of info pd cals stopTimes departureID arrivalID "[]" trips]
  obtain trip
    where hd: "hasDeparture (scan_stopTimes trip departureID arrivalID scan_start stopTimes)"
      and lt: "findStopIndex (Trip.TripID trip) departureID stopTimes
                < findStopIndex (Trip.TripID trip) arrivalID stopTimes"
      and info: "info = \<lparr>TrainInfo.TripID = Trip.TripID trip,
                  DepartureTime = departureTime (scan_stopTimes trip departureID arrivalID scan_start stopTimes),
                  ArrivalTime = arrivalTime (scan_stopTimes trip departureID arrivalID scan_start stopTimes)\<rparr>"
    by auto
  let ?tid = "Trip.TripID trip"
  note p = accepted_trip_positions [OF hd lt]
  from p(2) obtain a where a: "first_match ?tid arrivalID stopTimes = Some a"
    using rows_before_first(3) by blast
  from p(6) obtain d
    where d: "last_match ?tid departureID (rows_before ?tid arrivalID stopTimes) = Some d"
    using last_match_exists by blast
  from a d
  have "arrivalTime (scan_stopTimes trip departureID arrivalID scan_start stopTimes)
          = AdjustTime (StopTime.ArrivalTime a)
      \<and> departureTime (scan_stopTimes trip departureID arrivalID scan_start stopTimes)
          = AdjustTime (StopTime.DepartureTime d)"
    using scan_result [OF p(5) scan_start_flags(2) p(2) disjI2 [OF p(6)]] by simp
  with a d info show ?thesis by simp
qed

text \<open>The amended C4 on the feed of the loop.\<close>

theorem GetTrainList_reported_times_witness:
  "\<exists>a d.
      first_match ''5'' ''B'' loop_stop_times = Some a
      \<and> ''10:00:00'' = AdjustTime (StopTime.ArrivalTime a)
      \<and> last_match ''5'' ''A'' (rows_before ''5'' ''B'' loop_stop_times) = Some d
      \<and> ''09:00:00'' = AdjustTime (StopTime.DepartureTime d)"
proof -
  let ?info = "\<lparr>TrainInfo.TripID = ''5'', DepartureTime = ''09:00:00'',
                ArrivalTime = ''10:00:00''\<rparr>"
  have "?info \<in> set (Trains \<lparr>DepartureStation = ''Central'', ArrivalStation = ''North'',
          TrainListResponse.Date = ''2024-06-11'', Trains = [?info]\<rparr>)"
    by simp
  from GetTrainList_reported_times
    [OF loop_feed_search(1) feeds_stops(4) feeds_stop_times(3) loop_feed_search(2) this]
  show ?thesis by simp
qed

section \<open>Loading the stop times: claim C8\<close>

text \<open>
  Claim C8, as stated: a row whose \<^verbatim>\<open>stop_sequence\<close> field does not parse as an integer
  is kept with \<open>0\<close> in that field. It fails for a field that \<^verbatim>\<open>Atoi\<close> refuses because the
  number is out of the range of \<^verbatim>\<open>int\<close>: \<^verbatim>\<open>Atoi\<close> then returns the largest \<^verbatim>\<open>int\<close> with
  its error, and the loader, which drops the error, keeps that value.
\<close>

theorem loadStopTimes_range_error_counterexample:
  "Atoi ''99999999999999999999'' = (9223372036854775807, Some ErrRange)
   \<and> loadStopTimes (Records (stop_times_header # odd_sequence_rows)) =
       Inr [\<lparr>StopTime.TripID = ''5'', StopID = ''A'', ArrivalTime = ''07:55:00'',
             DepartureTime = ''08:00:00'', StopSequence = 0\<rparr>,
            \<lparr>StopTime.TripID = ''5'', StopID = ''B'', ArrivalTime = ''08:30:00'',
             DepartureTime = ''08:31:00'', StopSequence = 9223372036854775807\<rparr>]"
  by (simp add: odd_sequence_values loadStopTimes_def odd_sequence_rows_def
        stopTime_of_record_def)

text \<open>
  Claim C8, amended. When every data row has the five fields that the loader reads, each
  row is in the loaded table, at its place, with its trip id, stop id and two times as
  read. Its \<^verbatim>\<open>stop_sequence\<close> is the value that \<^verbatim>\<open>Atoi\<close> returns for the field, whose error the
  loader drops: the number read when \<^verbatim>\<open>Atoi\<close> reports no error, \<open>0\<close> when it reports a
  syntax error, and the largest or the smallest \<^verbatim>\<open>int\<close> when it reports a range error. No
  such row is dropped or makes the load fail.
\<close>

theorem loadStopTimes_keeps_rows:
  assumes "\<forall>record \<in> set rows. 5 \<le> length record"
    and "i < length rows"
  shows "\<exists>stopTimes.
      loadStopTimes (Records (header # rows)) = Inr stopTimes
      \<and> length stopTimes = length rows
      \<and> StopTime.TripID (stopTimes ! i) = rows ! i ! 0
      \<and> StopTime.ArrivalTime (stopTimes ! i) = rows ! i ! 1
      \<and> StopTime.DepartureTime (stopTimes ! i) = rows ! i ! 2
      \<and> StopTime.StopID (stopTimes ! i) = rows ! i ! 3
      \<and> (snd (Atoi (rows ! i ! 4)) = None \<longrightarrow>
            StopSequence (stopTimes ! i) = fst (Atoi (rows ! i ! 4)))
      \<and> (snd (Atoi (rows ! i ! 4)) = Some ErrSyntax \<longrightarrow> StopSequence (stopTimes ! i) = 0)
      \<and> (snd (Atoi (rows ! i ! 4)) = Some ErrRange \<longrightarrow>
            StopSequence (stopTimes ! i) = 2 ^ 63 - 1
            \<or> StopSequence (stopTimes ! i) = - (2 ^ 63))"
proof -
  from assms(1) have "loadStopTimes (Records (header # rows)) = Inr (map stopTime_of_record rows)"
    by (simp add: loadStopTimes_def stopTimes_loop_eq)
  moreover from assms(2)
  have "map stopTime_of_record rows ! i = stopTime_of_record (rows ! i)"
    by simp
  moreover have "fst (Atoi s) = 0" if "snd (Atoi s) = Some ErrSyntax" for s
    using that Atoi_error_value(1) [of s "fst (Atoi s)"] by (cases "Atoi s") simp
  moreover have "fst (Atoi s) = 2 ^ 63 - 1 \<or> fst (Atoi s) = - (2 ^ 63)"
    if "snd (Atoi s) = Some ErrRange" for s
    using that Atoi_error_value(2) [of s "fst (Atoi s)"] by (cases "Atoi s") simp
  ultimately show ?thesis
    by (simp add: stopTime_of_record_def)
qed

text \<open>The amended C8 on the row whose last field is a word.\<close>

theorem loadStopTimes_keeps_rows_witness:
  "\<exists>stopTimes.
      loadStopTimes (Records (stop_times_header # odd_sequence_rows)) = Inr stopTimes
      \<and> length stopTimes = 2
      \<and> StopTime.TripID (stopTimes ! 0) = ''5''
      \<and> StopTime.StopID (stopTimes ! 0) = ''A''
      \<and> StopSequence (stopTimes ! 0) = 0"
proof -
  have 1: "\<forall>record \<in> set odd_sequence_rows. 5 \<le> length record"
    by (simp add: odd_sequence_rows_def)
  have 2: "0 < length odd_sequence_rows"
    by (simp add: odd_sequence_rows_def)
  have 3: "snd (Atoi (odd_sequence_rows ! 0 ! 4)) = Some ErrSyntax"
    by code_simp
  have 4: "length odd_sequence_rows = 2" "odd_sequence_rows ! 0 ! 0 = ''5''"
    "odd_sequence_rows ! 0 ! 3 = ''A''"
    by (simp_all add: odd_sequence_rows_def)
  from loadStopTimes_keeps_rows [OF 1 2, of stop_times_header]
  obtain stopTimes
    where r: "loadStopTimes (Records (stop_times_header # odd_sequence_rows)) = Inr stopTimes"
      "length stopTimes = length odd_sequence_rows"
      "StopTime.TripID (stopTimes ! 0) = odd_sequence_rows ! 0 ! 0"
      "StopTime.StopID (stopTimes ! 0) = odd_sequence_rows ! 0 ! 3"
      "snd (Atoi (odd_sequence_rows ! 0 ! 4)) = Some ErrSyntax \<longrightarrow>
         StopSequence (stopTimes ! 0) = 0"
    by blast
  from r(5) 3 have "StopSequence (stopTimes ! 0) = 0" by blast
  with r(1-4) 4 show ?thesis
    by (intro exI [of _ stopTimes]) simp
qed

end
